theory Spec2Isabelle
  imports Main "HOL-Library.Word" "HOL-Library.Sublist"
begin

section \<open>Strings and values of the server\<close>

text \<open>
  A JavaScript string is a sequence of 16-bit code units. The literals of
  \<^verbatim>\<open>server.js\<close> that are modelled are ASCII apart from three emoji of the
  built-in template, which are written as their surrogate pairs.
\<close>

type_synonym jschar = "16 word"
type_synonym jsstring = "jschar list"

definition js :: "string \<Rightarrow> jsstring" where
  "js s = map of_char s"

text \<open>
  A property that may be absent (\<^verbatim>\<open>undefined\<close>, or \<^verbatim>\<open>null\<close>) is an option.
  The values the server tests for truthiness are strings: the empty string and the absent
  value are falsy.
\<close>

fun truthy :: "jsstring option \<Rightarrow> bool" where
  "truthy None = False"
| "truthy (Some v) = (v \<noteq> [])"

text \<open>A value interpolated into a template literal or passed where a string is expected.\<close>

fun toStr :: "jsstring option \<Rightarrow> jsstring" where
  "toStr None = js ''undefined''"
| "toStr (Some v) = v"

text \<open>Decimal rendering of a non-negative integer, as \<^verbatim>\<open>${i + 1}\<close> gives it.\<close>

fun showNat :: "nat \<Rightarrow> jsstring" where
  "showNat n =
     (if n < 10 then [of_nat (48 + n)]
      else showNat (n div 10) @ [of_nat (48 + n mod 10)])"

declare showNat.simps [simp del]

section \<open>Data model\<close>

text \<open>
  A recipient row is the object that the spreadsheet reader or \<^verbatim>\<open>JSON.parse\<close>
  hands over: a mapping from column name to string value.
\<close>

type_synonym row = "jsstring \<rightharpoonup> jsstring"

datatype job_status = Preparing | Processing

text \<open>The entry of \<^verbatim>\<open>emailJobs\<close> created by \<^verbatim>\<open>POST /api/send-emails\<close>.\<close>

record job =
  jobId :: jsstring
  data :: "row list"
  email :: jsstring
  password :: jsstring
  userType :: "jsstring option"
  customEmailBody :: "jsstring option"
  status :: job_status
  total :: nat
  current :: nat
  success :: nat
  failed :: nat

text \<open>
  The three objects passed to \<^verbatim>\<open>sendToClient\<close>, told apart by their
  \<^verbatim>\<open>type\<close> field: \<^verbatim>\<open>{type: 'progress', total, current, success, failed}\<close>,
  \<^verbatim>\<open>{type: 'log', message}\<close> and \<^verbatim>\<open>{type: 'complete', success, failed}\<close>.
\<close>

datatype event =
  Progress nat nat nat nat
| Log jsstring
| Complete nat nat

text \<open>
  An entry of \<^verbatim>\<open>clients\<close>. The response object \<^verbatim>\<open>res\<close> is modelled by the
  sequence of events written to it so far, oldest first (each \<^verbatim>\<open>res.write\<close> appends
  one \<^verbatim>\<open>data:\<close> frame holding the serialised event).
\<close>

record client =
  id_c :: nat
  email_c :: jsstring
  res :: "event list"

text \<open>The message object handed to \<^verbatim>\<open>transporter.sendMail\<close>.\<close>

record mailOptions =
  mail_from :: jsstring
  mail_to :: "jsstring option"
  subject :: jsstring
  html :: jsstring

text \<open>
  The state of the process: the two module-level maps, and the sequence of messages handed
  to \<^verbatim>\<open>transporter.sendMail\<close> so far (one element per invocation, oldest first).
\<close>

record server =
  clients :: "nat \<rightharpoonup> client"
  emailJobs :: "jsstring \<rightharpoonup> job"
  sentMail :: "mailOptions list"

section \<open>Broadcasting: \<^verbatim>\<open>sendToClient\<close>\<close>

definition writeTo :: "jsstring \<Rightarrow> event \<Rightarrow> client \<Rightarrow> client" where
  "writeTo email_key ev c =
     (if email_c c = email_key then c\<lparr>res := res c @ [ev]\<rparr> else c)"

definition sendToClient :: "jsstring \<Rightarrow> event \<Rightarrow> server \<Rightarrow> server" where
  "sendToClient email_key ev s =
     (let s1 = s\<lparr>clients := (\<lambda>k. map_option (writeTo email_key ev) (clients s k))\<rparr>
      in case ev of
           Progress t c su f \<Rightarrow>
             (case emailJobs s1 email_key of
                Some job \<Rightarrow>
                  s1\<lparr>emailJobs := (emailJobs s1)
                        (email_key \<mapsto> job\<lparr>current := c, success := su, failed := f\<rparr>)\<rparr>
              | None \<Rightarrow> s1)
         | Log m \<Rightarrow> s1
         | Complete su f \<Rightarrow> s1)"

section \<open>Text operations of the template renderer\<close>

subsection \<open>\<^verbatim>\<open>String.prototype.split\<close> with a one-character separator\<close>

text \<open>
  \<^verbatim>\<open>s.split(' ')\<close> cuts at every occurrence of the separator; the result of
  splitting the empty string is one empty piece.
\<close>

fun split_on :: "jschar \<Rightarrow> jsstring \<Rightarrow> jsstring list" where
  "split_on sep [] = [[]]"
| "split_on sep (c # s) =
     (if c = sep then [] # split_on sep s
      else (case split_on sep s of
              [] \<Rightarrow> [[c]]
            | p # ps \<Rightarrow> (c # p) # ps))"

subsection \<open>\<^verbatim>\<open>String.prototype.trim\<close>\<close>

definition lineTerminator :: "jschar \<Rightarrow> bool" where
  "lineTerminator c = (c = 0x000A \<or> c = 0x000D \<or> c = 0x2028 \<or> c = 0x2029)"

text \<open>The code units \<^verbatim>\<open>trim\<close> strips: ECMAScript WhiteSpace and LineTerminator.\<close>

definition whiteSpace :: "jschar \<Rightarrow> bool" where
  "whiteSpace c =
     (c = 0x0009 \<or> c = 0x000B \<or> c = 0x000C \<or> c = 0x0020 \<or> c = 0x00A0
      \<or> c = 0x1680 \<or> (0x2000 \<le> c \<and> c \<le> 0x200A) \<or> c = 0x202F \<or> c = 0x205F
      \<or> c = 0x3000 \<or> c = 0xFEFF \<or> lineTerminator c)"

definition trim :: "jsstring \<Rightarrow> jsstring" where
  "trim s = rev (dropWhile whiteSpace (rev (dropWhile whiteSpace s)))"

subsection \<open>The regular expressions of \<^verbatim>\<open>sendEmail\<close>\<close>

text \<open>
  A regular expression is modelled by what matching it at the start of a text returns: the
  matched text, the captures, and the text after the match. None of the expressions of
  \<^verbatim>\<open>sendEmail\<close> looks behind the position it is tried at.
\<close>

type_synonym rmatch = "jsstring \<times> jsstring list \<times> jsstring"
type_synonym regex = "jsstring \<Rightarrow> rmatch option"

text \<open>An expression that is one escaped literal, such as \<^verbatim>\<open>/\$\{Name\}/\<close>.\<close>

definition exec_lit :: "jsstring \<Rightarrow> regex" where
  "exec_lit p s = (if prefix p s then Some (p, [], drop (length p) s) else None)"

text \<open>
  The lazy group \<^verbatim>\<open>(.*?)\<close> followed by a literal that ends the expression: the
  shortest run of code units other than line terminators after which the literal follows.
\<close>

fun lazy_dot_until :: "jsstring \<Rightarrow> jsstring \<Rightarrow> (jsstring \<times> jsstring) option" where
  "lazy_dot_until lit [] = (if lit = [] then Some ([], []) else None)"
| "lazy_dot_until lit (c # s) =
     (if prefix lit (c # s) then Some ([], drop (length lit) (c # s))
      else if lineTerminator c then None
      else (case lazy_dot_until lit s of
              None \<Rightarrow> None
            | Some (content, rest) \<Rightarrow> Some (c # content, rest)))"

definition link_open :: jsstring where
  "link_open = js ''${Link ? `''"

definition link_close :: jsstring where
  "link_close = js ''` : '' @ [0x0027, 0x0027] @ js ''}''"

text \<open>\<^verbatim>\<open>linkRegex\<close>: the literal \<^verbatim>\<open>${Link ? `\<close>, the lazy group, and the literal that closes it.\<close>

definition linkRegex :: regex where
  "linkRegex s =
     (if prefix link_open s then
        (case lazy_dot_until link_close (drop (length link_open) s) of
           None \<Rightarrow> None
         | Some (content, rest) \<Rightarrow> Some (link_open @ content @ link_close, [content], rest))
      else None)"

subsection \<open>\<^verbatim>\<open>String.prototype.replace\<close> with a global regular expression\<close>

text \<open>
  The scan goes left to right. Where the expression matches, the replacement is emitted
  and the scan goes on after the match; elsewhere one code unit is copied. (After an empty
  match the scan advances by one code unit, as \<^verbatim>\<open>lastIndex\<close> does.) The replacer
  receives the matched text, the captures, the input before the match and the input after
  the match.
\<close>

type_synonym replacer = "jsstring \<Rightarrow> jsstring list \<Rightarrow> jsstring \<Rightarrow> jsstring \<Rightarrow> jsstring"

function replace_g :: "regex \<Rightarrow> replacer \<Rightarrow> jsstring \<Rightarrow> jsstring \<Rightarrow> jsstring" where
  "replace_g re f pre s =
     (case re s of
        Some (m, caps, rest) \<Rightarrow>
          if length rest < length s then f m caps pre rest @ replace_g re f (pre @ m) rest
          else (case s of
                  [] \<Rightarrow> f m caps pre rest
                | c # s' \<Rightarrow> f m caps pre rest @ c # replace_g re f (pre @ [c]) s')
      | None \<Rightarrow>
          (case s of
             [] \<Rightarrow> []
           | c # s' \<Rightarrow> c # replace_g re f (pre @ [c]) s'))"
  by pat_completeness auto
termination
  by (relation "measure (\<lambda>(re, f, pre, s). length s)") auto

declare replace_g.simps [simp del]

text \<open>
  The replacement patterns of a replacement string, for an expression without capture
  groups: \<^verbatim>\<open>$$\<close> is a dollar sign, \<^verbatim>\<open>$&\<close> the matched text,
  \<^verbatim>\<open>$`\<close> the input before the match, \<^verbatim>\<open>$'\<close> the input after it; a dollar
  sign before anything else stands for itself.
\<close>

fun getSubstitution :: "jsstring \<Rightarrow> jsstring \<Rightarrow> jsstring \<Rightarrow> jsstring \<Rightarrow> jsstring" where
  "getSubstitution m pre post [] = []"
| "getSubstitution m pre post [c] = [c]"
| "getSubstitution m pre post (c # d # r) =
     (if c = 0x0024 then
        (if d = 0x0024 then 0x0024 # getSubstitution m pre post r
         else if d = 0x0026 then m @ getSubstitution m pre post r
         else if d = 0x0060 then pre @ getSubstitution m pre post r
         else if d = 0x0027 then post @ getSubstitution m pre post r
         else c # getSubstitution m pre post (d # r))
      else c # getSubstitution m pre post (d # r))"

text \<open>\<^verbatim>\<open>s.replace(re, replacement)\<close> with a replacement string.\<close>

definition replace_str :: "regex \<Rightarrow> jsstring \<Rightarrow> jsstring \<Rightarrow> jsstring" where
  "replace_str re replacement s =
     replace_g re (\<lambda>m caps pre post. getSubstitution m pre post replacement) [] s"

text \<open>
  \<^verbatim>\<open>s.replace(re, (match, content) => ...)\<close> with a function of the match and its
  first capture; what the function returns is inserted as it is.
\<close>

definition replace_fn :: "regex \<Rightarrow> (jsstring \<Rightarrow> jsstring option \<Rightarrow> jsstring) \<Rightarrow> jsstring \<Rightarrow> jsstring" where
  "replace_fn re g s =
     replace_g re (\<lambda>m caps pre post. g m (case caps of [] \<Rightarrow> None | c # _ \<Rightarrow> Some c)) [] s"

section \<open>The fixed text of the two templates\<close>

text \<open>
  The built-in template of \<^verbatim>\<open>sendEmail\<close>, cut at its six interpolations, the style
  block of the custom template, and the document that wraps the custom body. One list
  element is one line of the source.
\<close>

definition navneet_1 :: jsstring where
  \<open>navneet_1 =
     js (concat
     [''\<newline>'',
      ''        <!DOCTYPE html>\<newline>'',
      ''        <html>\<newline>'',
      ''        <head>\<newline>'',
      ''          <meta charset="utf-8">\<newline>'',
      ''          <meta name="viewport" content="width=device-width, initial-scale=1">\<newline>'',
      ''          <style>\<newline>'',
      ''            body, p, div, a {\<newline>'',
      ''              font-family: Arial, sans-serif;\<newline>'',
      ''              line-height: 1.6;\<newline>'',
      ''              color: #2c3e50;\<newline>'',
      ''              margin: 0;\<newline>'',
      ''              padding: 0;\<newline>'',
      ''            }\<newline>'',
      ''            \<newline>'',
      ''            .container {\<newline>'',
      ''              max-width: 600px;\<newline>'',
      ''              padding: 20px;\<newline>'',
      ''            }\<newline>'',
      ''  \<newline>'',
      ''             .greeting {\<newline>'',
      ''              margin: 0;\<newline>'',
      ''            }\<newline>'',
      ''            \<newline>'',
      ''            .highlight {\<newline>'',
      ''              color: #2c3e50;\<newline>'',
      ''              font-weight: bold;\<newline>'',
      ''            }\<newline>'',
      ''            \<newline>'',
      ''            .experience {\<newline>'',
      ''              margin: 15px 0;\<newline>'',
      ''              padding: 15px;\<newline>'',
      ''              background: #f9f9f9;\<newline>'',
      ''              border-radius: 4px;\<newline>'',
      ''            }\<newline>'',
      ''            \<newline>'',
      ''            .tech-skills {\<newline>'',
      ''              display: inline-block;\<newline>'',
      ''              background: #f0f0f0;\<newline>'',
      ''              padding: 3px 8px;\<newline>'',
      ''              margin: 2px;\<newline>'',
      ''              border-radius: 3px;\<newline>'',
      ''              font-size: 13px;\<newline>'',
      ''              color: #2c3e50;\<newline>'',
      ''            }\<newline>'',
      ''            \<newline>'',
      ''            .links {\<newline>'',
      ''              margin: 20px 0;\<newline>'',
      ''              text-align: left;\<newline>'',
      ''            }\<newline>'',
      ''            \<newline>'',
      ''            .link-button {\<newline>'',
      ''              display: inline-block;\<newline>'',
      ''              margin: 5px 12px 5px 0;\<newline>'',
      ''              padding: 10px 20px;\<newline>'',
      ''              background: linear-gradient(135deg, #2c3e50 0%, #3498db 100%);\<newline>'',
      ''              color: white !important;\<newline>'',
      ''              text-decoration: none;\<newline>'',
      ''              border-radius: 6px;\<newline>'',
      ''              font-size: 14px;\<newline>'',
      ''              font-weight: 500;\<newline>'',
      ''              letter-spacing: 0.3px;\<newline>'',
      ''              border: 2px solid transparent;\<newline>'',
      ''              box-shadow: 0 2px 4px rgba(0, 0, 0, 0.1);\<newline>'',
      ''              transition: all 0.3s ease;\<newline>'',
      ''            }\<newline>'',
      ''            \<newline>'',
      ''            .link-button:hover {\<newline>'',
      ''              background: linear-gradient(135deg, #3498db 0%, #2c3e50 100%);\<newline>'',
      ''              transform: translateY(-1px);\<newline>'',
      ''              box-shadow: 0 4px 8px rgba(0, 0, 0, 0.15);\<newline>'',
      ''            }\<newline>'',
      ''            \<newline>'',
      ''            .link-button:active {\<newline>'',
      ''              transform: translateY(1px);\<newline>'',
      ''              box-shadow: 0 1px 2px rgba(0, 0, 0, 0.1);\<newline>'',
      ''            }\<newline>'',
      ''  \<newline>'',
      ''            .link-button.resume {\<newline>'',
      ''              background: linear-gradient(135deg, #2ecc71 0%, #27ae60 100%);\<newline>'',
      ''            }\<newline>'',
      ''            \<newline>'',
      ''            .link-button.resume:hover {\<newline>'',
      ''              background: linear-gradient(135deg, #27ae60 0%, #2ecc71 100%);\<newline>'',
      ''            }\<newline>'',
      ''  \<newline>'',
      ''            .link-button.linkedin {\<newline>'',
      ''              background: linear-gradient(135deg, #0077B5 0%, #00A0DC 100%);\<newline>'',
      ''            }\<newline>'',
      ''            \<newline>'',
      ''            .link-button.linkedin:hover {\<newline>'',
      ''              background: linear-gradient(135deg, #00A0DC 0%, #0077B5 100%);\<newline>'',
      ''            }\<newline>'',
      ''  \<newline>'',
      ''            .link-button.job {\<newline>'',
      ''              background: linear-gradient(135deg, #2c3e50 0%, #34495e 100%);\<newline>'',
      ''            }\<newline>'',
      ''            \<newline>'',
      ''            .link-button.job:hover {\<newline>'',
      ''              background: linear-gradient(135deg, #34495e 0%, #2c3e50 100%);\<newline>'',
      ''            }\<newline>'',
      ''            \<newline>'',
      ''            hr {\<newline>'',
      ''              border: none;\<newline>'',
      ''              border-top: 1px solid #eee;\<newline>'',
      ''              margin: 20px 0;\<newline>'',
      ''            }\<newline>'',
      ''            \<newline>'',
      ''            ul {\<newline>'',
      ''              padding-left: 20px;\<newline>'',
      ''              margin: 10px 0;\<newline>'',
      ''            }\<newline>'',
      ''            \<newline>'',
      ''            li {\<newline>'',
      ''              margin: 8px 0;\<newline>'',
      ''            }\<newline>'',
      ''            \<newline>'',
      ''            p {\<newline>'',
      ''              margin: 15px 0;\<newline>'',
      ''            }\<newline>'',
      ''            \<newline>'',
      ''            @media only screen and (max-width: 600px) {\<newline>'',
      ''              .container {\<newline>'',
      ''                width: 100% !important;\<newline>'',
      ''                padding: 10px !important;\<newline>'',
      ''              }\<newline>'',
      ''              \<newline>'',
      ''              .link-button {\<newline>'',
      ''                display: inline-block;\<newline>'',
      ''                margin: 5px 10px 5px 0;\<newline>'',
      ''              }\<newline>'',
      ''            }\<newline>'',
      ''          </style>\<newline>'',
      ''        </head>\<newline>'',
      ''        <body>\<newline>'',
      ''          <div class="container">\<newline>'',
      ''            <p class="greeting">Hi ''])\<close>

definition navneet_2 :: jsstring where
  \<open>navneet_2 =
     js (concat
     ['',</p>\<newline>'',
      ''            \<newline>'',
      ''            <p>I hope you're doing well! I came across the <span class="highlight">''])\<close>

definition navneet_3 :: jsstring where
  \<open>navneet_3 =
     js ''</span> position at <span class="highlight">''\<close>

definition navneet_4 :: jsstring where
  \<open>navneet_4 =
     js (concat
     [''</span> and am very interested in the opportunity. I'm currently working as an SDE-2 at Greenlight, focusing on backend development and payment systems.</p>\<newline>'',
      ''            \<newline>'',
      ''            <p>Here's an overview of my experience:</p>\<newline>'',
      ''            \<newline>'',
      ''            <div class="experience">\<newline>'',
      ''              <ul>\<newline>'',
      ''                <li><strong>Greenlight (SDE-2 Backend | Oct 2023 - Present)</strong>\<newline>'',
      ''                  <ul>\<newline>'',
      ''                    <li>Led development of transaction processing microservices using Java Spring Boot, Node.js, and AWS, handling mission-critical payment operations</li>\<newline>'',
      ''                    <li>Architected card payment systems with comprehensive workflows for authorization, settlement, and 3DS authentication</li>\<newline>'',
      ''                    <li>Built flexible spend control system and implemented reconciliation processes, improving transaction accuracy by 99.9%</li>\<newline>'',
      ''                  </ul>\<newline>'',
      ''                </li>\<newline>'',
      ''                \<newline>'',
      ''                <li><strong>MPL (SDE-1 | Dec 2022 - Sept 2023)</strong>\<newline>'',
      ''                  - Led battle limiter feature development and contributed to Brazil market expansion through poker-ops service\<newline>'',
      ''                </li>\<newline>'',
      ''                \<newline>'',
      ''                <li><strong>ULA (SDE-1 | July 2022 - Nov 2022)</strong>\<newline>'',
      ''                  - Implemented pickup-point optimization and recommendation engine, reducing logistics costs by 65% and improving adoption by 35%\<newline>'',
      ''                </li>\<newline>'',
      ''                \<newline>'',
      ''                <li><strong>Amazon (SDE Intern | Feb 2022 - June 2022)</strong>\<newline>'',
      ''                  - Automated manual processes using Java-mapper-beans and implemented extended log retention using Timber\<newline>'',
      ''                </li>\<newline>'',
      ''              </ul>\<newline>'',
      ''            </div>\<newline>'',
      ''            \<newline>'',
      ''            <p>Technical skills I frequently use:</p>\<newline>'',
      ''            <p>\<newline>'',
      ''              <span class="tech-skills">Java Spring Boot</span>\<newline>'',
      ''              <span class="tech-skills">Kotlin</span>\<newline>'',
      ''              <span class="tech-skills">Node.js</span>\<newline>'',
      ''              <span class="tech-skills">PostgreSQL</span>\<newline>'',
      ''              <span class="tech-skills">AWS</span>\<newline>'',
      ''              <span class="tech-skills">Microservices</span>\<newline>'',
      ''              <span class="tech-skills">RESTful APIs</span>\<newline>'',
      ''            </p>\<newline>'',
      ''            \<newline>'',
      ''            <p>A few important points:</p>\<newline>'',
      ''            <ul>\<newline>'',
      ''              <li>Notice period is 30 days (negotiable)</li>\<newline>'',
      ''              <li>Available for immediate interviews</li>\<newline>'',
      ''              <li>Strong background in payment systems and scalable architectures</li>\<newline>'',
      ''            </ul>\<newline>'',
      ''            \<newline>'',
      ''            <div class="links">\<newline>'',
      ''              <a href="https://drive.google.com/file/d/177azdELnL0AGwqkAHtxiji7fbvkObbbh/view" class="link-button resume">''])
   @ [0xD83D, 0xDCC4]
   @ js (concat
     ['' My Resume</a>\<newline>'',
      ''              <a href="https://www.linkedin.com/in/navneet-khandelwal-05091a169/" class="link-button linkedin">''])
   @ [0xD83D, 0xDC64]
   @ js (concat
     ['' LinkedIn Profile</a>\<newline>'',
      ''              ''])\<close>

definition navneet_5 :: jsstring where
  \<open>navneet_5 =
     js (concat
     [''\<newline>'',
      ''            </div>\<newline>'',
      ''            \<newline>'',
      ''            <hr>\<newline>'',
      ''            \<newline>'',
      ''            <p>I would be delighted to discuss how I can contribute to ''])\<close>

definition navneet_6 :: jsstring where
  \<open>navneet_6 =
     js (concat
     [''.</p>\<newline>'',
      ''            \<newline>'',
      ''            <p>Thank you for your time and consideration. Looking forward to hearing from you!<br>\<newline>'',
      ''            Best regards,<br>\<newline>'',
      ''            Navneet Khandelwal<br>\<newline>'',
      ''            +91 9773549557</p>\<newline>'',
      ''          </div>\<newline>'',
      ''        </body>\<newline>'',
      ''        </html>\<newline>'',
      ''      ''])\<close>

definition navneet_link_1 :: jsstring where
  \<open>navneet_link_1 =
     js ''<a href="''\<close>

definition navneet_link_2 :: jsstring where
  \<open>navneet_link_2 =
     js ''" class="link-button job">''
   @ [0xD83D, 0xDD0D]
   @ js '' Job Details</a>''\<close>

definition emailStyles :: jsstring where
  \<open>emailStyles =
     js (concat
     [''\<newline>'',
      ''        <style>\<newline>'',
      ''          body, p, div, a {\<newline>'',
      ''            font-family: Arial, sans-serif;\<newline>'',
      ''            line-height: 1.6;\<newline>'',
      ''            color: #2c3e50;\<newline>'',
      ''            margin: 0;\<newline>'',
      ''            padding: 0;\<newline>'',
      ''          }\<newline>'',
      ''          \<newline>'',
      ''          .container {\<newline>'',
      ''            max-width: 600px;\<newline>'',
      ''            padding: 20px;\<newline>'',
      ''          }\<newline>'',
      ''  \<newline>'',
      ''          .greeting {\<newline>'',
      ''            margin: 0;\<newline>'',
      ''          }\<newline>'',
      ''          \<newline>'',
      ''          .highlight {\<newline>'',
      ''            color: #2c3e50;\<newline>'',
      ''            font-weight: bold;\<newline>'',
      ''          }\<newline>'',
      ''          \<newline>'',
      ''          .experience {\<newline>'',
      ''            margin: 15px 0;\<newline>'',
      ''            padding: 15px;\<newline>'',
      ''            background: #f9f9f9;\<newline>'',
      ''            border-radius: 4px;\<newline>'',
      ''          }\<newline>'',
      ''          \<newline>'',
      ''          .tech-skills {\<newline>'',
      ''            display: inline-block;\<newline>'',
      ''            background: #f0f0f0;\<newline>'',
      ''            padding: 3px 8px;\<newline>'',
      ''            margin: 2px;\<newline>'',
      ''            border-radius: 3px;\<newline>'',
      ''            font-size: 13px;\<newline>'',
      ''            color: #2c3e50;\<newline>'',
      ''          }\<newline>'',
      ''          \<newline>'',
      ''          .links {\<newline>'',
      ''            margin: 20px 0;\<newline>'',
      ''            text-align: left;\<newline>'',
      ''          }\<newline>'',
      ''          \<newline>'',
      ''          .link-button {\<newline>'',
      ''            display: inline-block;\<newline>'',
      ''            margin: 5px 12px 5px 0;\<newline>'',
      ''            padding: 10px 20px;\<newline>'',
      ''            background: linear-gradient(135deg, #2c3e50 0%, #3498db 100%);\<newline>'',
      ''            color: white !important;\<newline>'',
      ''            text-decoration: none;\<newline>'',
      ''            border-radius: 6px;\<newline>'',
      ''            font-size: 14px;\<newline>'',
      ''            font-weight: 500;\<newline>'',
      ''            letter-spacing: 0.3px;\<newline>'',
      ''            border: 2px solid transparent;\<newline>'',
      ''            box-shadow: 0 2px 4px rgba(0, 0, 0, 0.1);\<newline>'',
      ''            transition: all 0.3s ease;\<newline>'',
      ''          }\<newline>'',
      ''          \<newline>'',
      ''          .link-button:hover {\<newline>'',
      ''            background: linear-gradient(135deg, #3498db 0%, #2c3e50 100%);\<newline>'',
      ''            transform: translateY(-1px);\<newline>'',
      ''            box-shadow: 0 4px 8px rgba(0, 0, 0, 0.15);\<newline>'',
      ''          }\<newline>'',
      ''          \<newline>'',
      ''          .link-button:active {\<newline>'',
      ''            transform: translateY(1px);\<newline>'',
      ''            box-shadow: 0 1px 2px rgba(0, 0, 0, 0.1);\<newline>'',
      ''          }\<newline>'',
      ''  \<newline>'',
      ''          .link-button.resume {\<newline>'',
      ''            background: linear-gradient(135deg, #2ecc71 0%, #27ae60 100%);\<newline>'',
      ''          }\<newline>'',
      ''          \<newline>'',
      ''          .link-button.resume:hover {\<newline>'',
      ''            background: linear-gradient(135deg, #27ae60 0%, #2ecc71 100%);\<newline>'',
      ''          }\<newline>'',
      ''  \<newline>'',
      ''          .link-button.linkedin {\<newline>'',
      ''            background: linear-gradient(135deg, #0077B5 0%, #00A0DC 100%);\<newline>'',
      ''          }\<newline>'',
      ''          \<newline>'',
      ''          .link-button.linkedin:hover {\<newline>'',
      ''            background: linear-gradient(135deg, #00A0DC 0%, #0077B5 100%);\<newline>'',
      ''          }\<newline>'',
      ''  \<newline>'',
      ''          .link-button.job {\<newline>'',
      ''            background: linear-gradient(135deg, #2c3e50 0%, #34495e 100%);\<newline>'',
      ''          }\<newline>'',
      ''          \<newline>'',
      ''          .link-button.job:hover {\<newline>'',
      ''            background: linear-gradient(135deg, #34495e 0%, #2c3e50 100%);\<newline>'',
      ''          }\<newline>'',
      ''          \<newline>'',
      ''          hr {\<newline>'',
      ''            border: none;\<newline>'',
      ''            border-top: 1px solid #eee;\<newline>'',
      ''            margin: 20px 0;\<newline>'',
      ''          }\<newline>'',
      ''          \<newline>'',
      ''          ul {\<newline>'',
      ''            padding-left: 20px;\<newline>'',
      ''            margin: 10px 0;\<newline>'',
      ''          }\<newline>'',
      ''          \<newline>'',
      ''          li {\<newline>'',
      ''            margin: 8px 0;\<newline>'',
      ''          }\<newline>'',
      ''          \<newline>'',
      ''          p {\<newline>'',
      ''            margin: 15px 0;\<newline>'',
      ''          }\<newline>'',
      ''          \<newline>'',
      ''          @media only screen and (max-width: 600px) {\<newline>'',
      ''            .container {\<newline>'',
      ''              width: 100% !important;\<newline>'',
      ''              padding: 10px !important;\<newline>'',
      ''            }\<newline>'',
      ''            \<newline>'',
      ''            .link-button {\<newline>'',
      ''              display: inline-block;\<newline>'',
      ''              margin: 5px 10px 5px 0;\<newline>'',
      ''            }\<newline>'',
      ''          }\<newline>'',
      ''        </style>\<newline>'',
      ''      ''])\<close>

definition custom_1 :: jsstring where
  \<open>custom_1 =
     js (concat
     [''\<newline>'',
      ''        <!DOCTYPE html>\<newline>'',
      ''        <html>\<newline>'',
      ''        <head>\<newline>'',
      ''          <meta charset="utf-8">\<newline>'',
      ''          <meta name="viewport" content="width=device-width, initial-scale=1">\<newline>'',
      ''          ''])\<close>

definition custom_2 :: jsstring where
  \<open>custom_2 =
     js (concat
     [''\<newline>'',
      ''        </head>\<newline>'',
      ''        ''])\<close>

definition custom_3 :: jsstring where
  \<open>custom_3 =
     js (concat
     [''\<newline>'',
      ''        </html>\<newline>'',
      ''      ''])\<close>

section \<open>Rendering and sending one message: \<^verbatim>\<open>sendEmail\<close>\<close>

datatype js_error = Error jsstring | TypeError jsstring

fun message :: "js_error \<Rightarrow> jsstring" where
  "message (Error m) = m"
| "message (TypeError m) = m"

text \<open>\<^verbatim>\<open>Name.split(' ')[0]\<close>\<close>

definition firstName_of :: "jsstring \<Rightarrow> jsstring option" where
  "firstName_of Name = (case split_on 0x0020 Name of [] \<Rightarrow> None | p # _ \<Rightarrow> Some p)"

text \<open>The template literal of the \<^verbatim>\<open>'navneet'\<close> branch.\<close>

definition navneetTemplate ::
  "jsstring option \<Rightarrow> jsstring option \<Rightarrow> jsstring option \<Rightarrow> jsstring option \<Rightarrow> jsstring" where
  "navneetTemplate firstName Role Company Link =
     navneet_1 @ toStr firstName @ navneet_2 @ toStr Role @ navneet_3 @ toStr Company
     @ navneet_4
     @ (if truthy Link then navneet_link_1 @ toStr Link @ navneet_link_2 else [])
     @ navneet_5 @ toStr Company @ navneet_6"

text \<open>The first replacement of the \<^verbatim>\<open>'other'\<close> branch, with \<^verbatim>\<open>linkRegex\<close>.\<close>

definition resolveLink :: "jsstring option \<Rightarrow> jsstring \<Rightarrow> jsstring" where
  "resolveLink Link emailTemplate =
     replace_fn linkRegex (\<lambda>match content. if truthy Link then toStr content else [])
       emailTemplate"

text \<open>The chain of six replacements of the \<^verbatim>\<open>'other'\<close> branch.\<close>

definition replaceVariables ::
  "jsstring option \<Rightarrow> jsstring \<Rightarrow> jsstring option \<Rightarrow> jsstring option \<Rightarrow> jsstring option
   \<Rightarrow> jsstring option \<Rightarrow> jsstring \<Rightarrow> jsstring" where
  "replaceVariables firstName Name Company Email Role Link emailTemplate =
     replace_str (exec_lit (js ''${Link}'')) (if truthy Link then toStr Link else [])
       (replace_str (exec_lit (js ''${Role}'')) (toStr Role)
         (replace_str (exec_lit (js ''${Email}'')) (toStr Email)
           (replace_str (exec_lit (js ''${Company}'')) (toStr Company)
             (replace_str (exec_lit (js ''${Name}'')) Name
               (replace_str (exec_lit (js ''${firstName}'')) (toStr firstName)
                  emailTemplate)))))"

text \<open>The \<^verbatim>\<open>'other'\<close> branch, once the custom body is known to be there.\<close>

definition customTemplate ::
  "jsstring \<Rightarrow> jsstring option \<Rightarrow> jsstring \<Rightarrow> jsstring option \<Rightarrow> jsstring option
   \<Rightarrow> jsstring option \<Rightarrow> jsstring option \<Rightarrow> jsstring" where
  "customTemplate customEmailBody_v firstName Name Company Email Role Link =
     (let customBody = trim customEmailBody_v;
          emailTemplate = custom_1 @ emailStyles @ custom_2 @ customBody @ custom_3;
          emailTemplate = resolveLink Link emailTemplate
      in replaceVariables firstName Name Company Email Role Link emailTemplate)"

text \<open>
  \<^verbatim>\<open>sendEmail\<close> up to the call of \<^verbatim>\<open>transporter.sendMail\<close>: the message, or the
  error thrown on the way. Reading \<^verbatim>\<open>Name.split\<close> of a row without a name throws a
  TypeError (its message is the engine's; the loop never sends such a row).
\<close>

definition buildMailOptions :: "row \<Rightarrow> job \<Rightarrow> js_error + mailOptions" where
  "buildMailOptions row job =
     (let Name = row (js ''Name''); Company = row (js ''Company''); Email = row (js ''Email'');
          Role = row (js ''Role''); Link = row (js ''Link'')
      in case Name of
           None \<Rightarrow>
             Inl (TypeError (js ''Cannot read properties of undefined (reading 'split')''))
         | Some Name_v \<Rightarrow>
             (let firstName = firstName_of Name_v;
                  mail = (\<lambda>emailTemplate.
                    \<lparr>mail_from =
                       (if userType job = Some (js ''navneet'') then js ''Navneet Khandelwal''
                        else js ''Interview Opportunity Needed'')
                       @ js '' <'' @ email job @ js ''>'',
                     mail_to = Email,
                     subject = js ''Request for an Interview Opportunity - '' @ toStr Role
                       @ js '' at '' @ toStr Company,
                     html = emailTemplate\<rparr>)
              in if userType job = Some (js ''navneet'') then
                   Inr (mail (navneetTemplate firstName Role Company Link))
                 else if userType job = Some (js ''other'') then
                   (case customEmailBody job of
                      None \<Rightarrow> Inl (Error (js ''No custom email template provided''))
                    | Some body \<Rightarrow>
                        if body = [] then Inl (Error (js ''No custom email template provided''))
                        else Inr (mail (customTemplate body firstName Name_v Company Email
                                          Role Link)))
                 else Inl (Error (js ''Invalid user type specified''))))"

text \<open>
  The delivery capability. What \<^verbatim>\<open>transporter.sendMail\<close> answers is outside the
  program: it is a function of the messages handed over earlier and of the message, giving
  no error (the promise resolves) or the message of the error it rejects with.
\<close>

type_synonym transporter = "mailOptions list \<Rightarrow> mailOptions \<Rightarrow> jsstring option"

definition sendEmail ::
  "transporter \<Rightarrow> row \<Rightarrow> job \<Rightarrow> mailOptions list \<Rightarrow> (js_error + unit) \<times> mailOptions list" where
  "sendEmail transporter_v row job sent =
     (case buildMailOptions row job of
        Inl err \<Rightarrow> (Inl err, sent)
      | Inr mail \<Rightarrow>
          (case transporter_v sent mail of
             None \<Rightarrow> (Inr (), sent @ [mail])
           | Some msg \<Rightarrow> (Inl (Error msg), sent @ [mail])))"

section \<open>The delivery loop: \<^verbatim>\<open>processEmailJob\<close>\<close>

text \<open>
  \<^verbatim>\<open>processEmailJob\<close> is modelled as one uninterrupted run: no other request is
  served while it waits for \<^verbatim>\<open>sendMail\<close> or for the three-second timer (the timer
  itself changes no state and is left out). Its variable \<^verbatim>\<open>job\<close> is a reference to the
  object stored under \<^verbatim>\<open>emailJobs.get(email)\<close>; a write through the reference is a
  write to the entry, which \<open>write_job\<close> performs.
\<close>

definition write_job :: "jsstring \<Rightarrow> job \<Rightarrow> server \<Rightarrow> server" where
  "write_job email_key job s = s\<lparr>emailJobs := (emailJobs s)(email_key \<mapsto> job)\<rparr>"

definition missingRequired :: "row \<Rightarrow> bool" where
  "missingRequired row =
     (\<not> truthy (row (js ''Name'')) \<or> \<not> truthy (row (js ''Email''))
      \<or> \<not> truthy (row (js ''Company'')) \<or> \<not> truthy (row (js ''Role'')))"

text \<open>The body of the \<^verbatim>\<open>for\<close> loop, for the row at index \<open>i\<close>.\<close>

definition iteration ::
  "transporter \<Rightarrow> jsstring \<Rightarrow> row \<Rightarrow> nat \<Rightarrow> job \<times> server \<Rightarrow> job \<times> server" where
  "iteration transporter_v email_key row i st =
     (let job = (fst st)\<lparr>current := i + 1\<rparr>;
          s = write_job email_key job (snd st)
      in if missingRequired row then
           (let s = sendToClient email_key
                      (Log (js ''Skipping row '' @ showNat (i + 1)
                            @ js '': Missing required fields'')) s;
                job = job\<lparr>failed := failed job + 1\<rparr>
            in (job, write_job email_key job s))
         else
           (let sent = sendEmail transporter_v row job (sentMail s);
                s = s\<lparr>sentMail := snd sent\<rparr>;
                st1 =
                  (case fst sent of
                     Inr u \<Rightarrow>
                       (let job = job\<lparr>success := success job + 1\<rparr>;
                            s = write_job email_key job s
                        in (job, sendToClient email_key
                              (Log (showNat (i + 1) @ js ''/'' @ showNat (total job)
                                    @ js '': Successfully sent email to ''
                                    @ toStr (row (js ''Email'')))) s))
                   | Inl err \<Rightarrow>
                       (let job = job\<lparr>failed := failed job + 1\<rparr>;
                            s = write_job email_key job s
                        in (job, sendToClient email_key
                              (Log (showNat (i + 1) @ js ''/'' @ showNat (total job)
                                    @ js '': Failed to send email to ''
                                    @ toStr (row (js ''Email'')) @ js '': '' @ message err)) s)));
                job = fst st1
            in (job, sendToClient email_key
                       (Progress (total job) (current job) (success job) (failed job))
                       (snd st1))))"

text \<open>The \<^verbatim>\<open>for\<close> loop over \<^verbatim>\<open>job.data\<close>, from index \<open>i\<close> on.\<close>

fun loop ::
  "transporter \<Rightarrow> jsstring \<Rightarrow> row list \<Rightarrow> nat \<Rightarrow> job \<times> server \<Rightarrow> job \<times> server" where
  "loop transporter_v email_key [] i st = st"
| "loop transporter_v email_key (row # rows) i st =
     loop transporter_v email_key rows (Suc i) (iteration transporter_v email_key row i st)"

text \<open>
  \<^verbatim>\<open>createTransporter\<close> calls into the mail library; it is a parameter here, returning
  the delivery capability or the error it throws.
\<close>

type_synonym transporter_factory = "jsstring \<Rightarrow> jsstring \<Rightarrow> js_error + transporter"

definition processEmailJob :: "transporter_factory \<Rightarrow> jsstring \<Rightarrow> server \<Rightarrow> server" where
  "processEmailJob createTransporter email_key s =
     (case emailJobs s email_key of
        None \<Rightarrow> s
      | Some job0 \<Rightarrow>
          (let job = job0\<lparr>status := Processing\<rparr>;
               s = write_job email_key job s
           in case createTransporter (email job) (password job) of
                Inl err \<Rightarrow>
                  (let s = sendToClient email_key
                             (Log (js ''Error creating email transporter: '' @ message err)) s;
                       s = sendToClient email_key (Complete 0 (total job)) s
                   in s\<lparr>emailJobs := (emailJobs s)(email_key := None)\<rparr>)
              | Inr transporter_v \<Rightarrow>
                  (let s = sendToClient email_key
                             (Log (js ''Starting email sending process for ''
                                   @ showNat (total job) @ js '' recipients'')) s;
                       st = loop transporter_v email_key (data job) 0 (job, s);
                       s = sendToClient email_key
                             (Complete (success (fst st)) (failed (fst st))) (snd st)
                   in s\<lparr>emailJobs := (emailJobs s)(email_key := None)\<rparr>)))"

section \<open>The two endpoints\<close>


text \<open>A JSON response: status, \<^verbatim>\<open>success\<close>, \<^verbatim>\<open>message\<close>, and \<^verbatim>\<open>jobId\<close> with \<^verbatim>\<open>total\<close>.\<close>

datatype response = Json nat bool jsstring "(jsstring \<times> nat) option"




text \<open>
  The handler of \<^verbatim>\<open>GET /api/send-emails-sse\<close>, given the value of \<^verbatim>\<open>Date.now()\<close>
  that becomes the client identifier. Without the \<^verbatim>\<open>email\<close> parameter it answers 400
  and registers nothing.
\<close>

definition send_emails_sse ::
  "nat \<Rightarrow> jsstring option \<Rightarrow> server \<Rightarrow> response option \<times> server" where
  "send_emails_sse now query_email s =
     (if \<not> truthy query_email then
        (Some (Json 400 False (js ''Email parameter is required'') None), s)
      else
        (let email_v = toStr query_email;
             res_v =
               (case emailJobs s email_v of
                  Some job \<Rightarrow> [Progress (total job) (current job) (success job) (failed job)]
                | None \<Rightarrow> [])
         in (None, s\<lparr>clients := (clients s)(now \<mapsto>
                        \<lparr>id_c = now, email_c = email_v, res = res_v\<rparr>)\<rparr>)))"

text \<open>The \<^verbatim>\<open>close\<close> handler of a subscription.\<close>

definition close_client :: "nat \<Rightarrow> server \<Rightarrow> server" where
  "close_client clientId s = s\<lparr>clients := (clients s)(clientId := None)\<rparr>"

section \<open>The delivery loop between other requests\<close>

text \<open>
  \<^verbatim>\<open>processEmailJob\<close> is an \<^verbatim>\<open>async\<close> function: at
  \<^verbatim>\<open>await sendEmail(transporter, row, job)\<close> and at the three-second timer it returns
  to the event loop, and the server handles other requests and resumes other loops before
  it continues. The functions \<open>iteration\<close>, \<open>loop\<close> and \<open>processEmailJob\<close> above
  describe the run in which nothing is handled in between; the functions of this section
  keep the two suspension points.

  A job is an object, and \<^verbatim>\<open>emailJobs\<close> maps a sender to a reference to one. The
  loop keeps the reference that it read at its start (\<^verbatim>\<open>const job = emailJobs.get(email)\<close>)
  and writes through it, whatever \<^verbatim>\<open>emailJobs\<close> holds for the sender by then. The
  state therefore has a store of job objects, indexed by address, and \<^verbatim>\<open>emailJobs\<close>
  maps a sender to an address.
\<close>

record hserver =
  h_clients :: "nat \<rightharpoonup> client"
  h_emailJobs :: "jsstring \<rightharpoonup> nat"
  h_objects :: "nat \<Rightarrow> job"
  h_sentMail :: "mailOptions list"

text \<open>A write through the reference \<open>a\<close> to a job object.\<close>

definition modify_job :: "nat \<Rightarrow> (job \<Rightarrow> job) \<Rightarrow> hserver \<Rightarrow> hserver" where
  "modify_job a f s = s\<lparr>h_objects := (h_objects s)(a := f (h_objects s a))\<rparr>"

text \<open>
  \<^verbatim>\<open>sendToClient\<close> on this state: the counters of a progress event are written to
  the object that \<^verbatim>\<open>emailJobs.get(email)\<close> returns at the time of the call.
\<close>

definition sendToClient_h :: "jsstring \<Rightarrow> event \<Rightarrow> hserver \<Rightarrow> hserver" where
  "sendToClient_h email_key ev s =
     (let s1 = s\<lparr>h_clients := (\<lambda>k. map_option (writeTo email_key ev) (h_clients s k))\<rparr>
      in case ev of
           Progress t c su f \<Rightarrow>
             (case h_emailJobs s1 email_key of
                Some b \<Rightarrow> modify_job b (\<lambda>job. job\<lparr>current := c, success := su, failed := f\<rparr>) s1
              | None \<Rightarrow> s1)
         | Log m \<Rightarrow> s1
         | Complete su f \<Rightarrow> s1)"









section \<open>Notions used to state the properties\<close>

subsection \<open>What subscribers receive\<close>

text \<open>
  \<open>pushed e evs cs\<close> is the client registry \<open>cs\<close> after the events \<open>evs\<close> have been
  written, in this order, to every client subscribed to the sender \<open>e\<close> and to no other.
\<close>

definition pushed :: "jsstring \<Rightarrow> event list \<Rightarrow> (nat \<rightharpoonup> client) \<Rightarrow> (nat \<rightharpoonup> client)" where
  "pushed email_key evs cs =
     (\<lambda>k. map_option (\<lambda>c. if email_c c = email_key then c\<lparr>res := res c @ evs\<rparr> else c) (cs k))"


subsection \<open>A loop that is left alone\<close>

text \<open>
  \<open>only_key a e s\<close>: \<^verbatim>\<open>emailJobs\<close> refers to the job object at address \<open>a\<close> under
  no sender other than \<open>e\<close> (the start handler stores each new object under one sender).
\<close>

definition only_key :: "nat \<Rightarrow> jsstring \<Rightarrow> hserver \<Rightarrow> bool" where
  "only_key a email_key s = (\<forall>k. h_emailJobs s k = Some a \<longrightarrow> k = email_key)"



subsection \<open>Structured templates\<close>

text \<open>
  A custom template in which the dollar sign occurs only in the six plain placeholders and
  in conditional-link placeholders: a sequence of text without dollar sign, plain
  placeholders, and conditionals whose fragment is made of placeholders and of text
  without dollar sign, backtick and line terminator. \<open>template_source\<close> is the text of
  such a template; \<open>template_value\<close> is what one pass of a placeholder resolver makes of
  it: a placeholder becomes the value of its field, a conditional becomes its fragment
  (placeholders resolved) when the link is there and nothing otherwise.
\<close>

datatype var = V_firstName | V_Name | V_Company | V_Email | V_Role | V_Link

fun placeholder :: "var \<Rightarrow> jsstring" where
  "placeholder V_firstName = js ''${firstName}''"
| "placeholder V_Name = js ''${Name}''"
| "placeholder V_Company = js ''${Company}''"
| "placeholder V_Email = js ''${Email}''"
| "placeholder V_Role = js ''${Role}''"
| "placeholder V_Link = js ''${Link}''"

datatype piece = Text jsstring | Var var
datatype item = Plain piece | IfLink "piece list"

fun piece_source :: "piece \<Rightarrow> jsstring" where
  "piece_source (Text t) = t"
| "piece_source (Var v) = placeholder v"

definition pieces_source :: "piece list \<Rightarrow> jsstring" where
  "pieces_source ps = concat (map piece_source ps)"

fun item_source :: "item \<Rightarrow> jsstring" where
  "item_source (Plain p) = piece_source p"
| "item_source (IfLink ps) = link_open @ pieces_source ps @ link_close"

definition template_source :: "item list \<Rightarrow> jsstring" where
  "template_source items = concat (map item_source items)"

fun plain_piece_ok :: "piece \<Rightarrow> bool" where
  "plain_piece_ok (Text t) = (0x0024 \<notin> set t)"
| "plain_piece_ok (Var v) = True"

fun fragment_piece_ok :: "piece \<Rightarrow> bool" where
  "fragment_piece_ok (Text t) =
     (0x0024 \<notin> set t \<and> 0x0060 \<notin> set t \<and> list_all (\<lambda>c. \<not> lineTerminator c) t)"
| "fragment_piece_ok (Var v) = True"

fun item_ok :: "item \<Rightarrow> bool" where
  "item_ok (Plain p) = plain_piece_ok p"
| "item_ok (IfLink ps) = list_all fragment_piece_ok ps"

fun piece_value :: "(var \<Rightarrow> jsstring) \<Rightarrow> piece \<Rightarrow> jsstring" where
  "piece_value vals (Text t) = t"
| "piece_value vals (Var v) = vals v"

fun item_value :: "bool \<Rightarrow> (var \<Rightarrow> jsstring) \<Rightarrow> item \<Rightarrow> jsstring" where
  "item_value link_present vals (Plain p) = piece_value vals p"
| "item_value link_present vals (IfLink ps) =
     (if link_present then concat (map (piece_value vals) ps) else [])"

definition template_value :: "bool \<Rightarrow> (var \<Rightarrow> jsstring) \<Rightarrow> item list \<Rightarrow> jsstring" where
  "template_value link_present vals items = concat (map (item_value link_present vals) items)"

text \<open>An expression that can only match at a dollar sign.\<close>

definition starts_dollar :: "regex \<Rightarrow> bool" where
  "starts_dollar re = (re [] = None \<and> (\<forall>c s. c \<noteq> 0x0024 \<longrightarrow> re (c # s) = None))"

text \<open>The replacement strings that \<^verbatim>\<open>sendEmail\<close> passes for the six placeholders.\<close>

definition field_values ::
  "jsstring option \<Rightarrow> jsstring \<Rightarrow> jsstring option \<Rightarrow> jsstring option \<Rightarrow> jsstring option
   \<Rightarrow> jsstring option \<Rightarrow> var \<Rightarrow> jsstring" where
  "field_values firstName Name Company Email Role Link v =
     (case v of
        V_firstName \<Rightarrow> toStr firstName
      | V_Name \<Rightarrow> Name
      | V_Company \<Rightarrow> toStr Company
      | V_Email \<Rightarrow> toStr Email
      | V_Role \<Rightarrow> toStr Role
      | V_Link \<Rightarrow> (if truthy Link then toStr Link else []))"

text \<open>
  Two steps used in the proofs: a conditional resolved into the pieces it leaves, and one
  placeholder replaced by a value in a piece.
\<close>

fun resolve_item :: "bool \<Rightarrow> item \<Rightarrow> piece list" where
  "resolve_item link_present (Plain p) = [p]"
| "resolve_item link_present (IfLink ps) = (if link_present then ps else [])"

fun subst_piece :: "var \<Rightarrow> jsstring \<Rightarrow> piece \<Rightarrow> piece" where
  "subst_piece v val (Text t) = Text t"
| "subst_piece v val (Var w) = (if w = v then Text val else Var w)"

subsection \<open>The first name, in the words of the specification\<close>

text \<open>
  Stated from the specification's words, not from the code: the first whitespace-delimited
  token of the name field. Every whitespace code unit is a delimiter, and the token starts
  at the first code unit that is not whitespace, so whitespace at the start of the name is
  not part of it.
\<close>

definition first_whitespace_token :: "jsstring \<Rightarrow> jsstring" where
  "first_whitespace_token name =
     takeWhile (\<lambda>c. \<not> whiteSpace c) (dropWhile whiteSpace name)"

subsection \<open>A concrete server state\<close>

definition ex_sender :: jsstring where
  "ex_sender = js ''me@example.org''"

definition ex_row :: row where
  "ex_row = [js ''Name'' \<mapsto> js ''Ada Lovelace'', js ''Email'' \<mapsto> js ''ada@example.org'',
             js ''Company'' \<mapsto> js ''Acme'', js ''Role'' \<mapsto> js ''Engineer'']"

definition ex_row_no_role :: row where
  "ex_row_no_role = [js ''Name'' \<mapsto> js ''Bob Roe'', js ''Email'' \<mapsto> js ''bob@example.org'',
                     js ''Company'' \<mapsto> js ''Initech'']"

definition ex_job :: job where
  "ex_job = \<lparr>jobId = js ''job-1'', data = [ex_row, ex_row_no_role], email = ex_sender,
             password = js ''secret'', userType = Some (js ''other''), customEmailBody = None,
             status = Preparing, total = 2, current = 0, success = 0, failed = 0\<rparr>"

definition ex_server :: server where
  "ex_server = \<lparr>clients = [7 \<mapsto> \<lparr>id_c = 7, email_c = ex_sender, res = []\<rparr>],
                emailJobs = [ex_sender \<mapsto> ex_job], sentMail = []\<rparr>"

definition ex_factory_fail :: transporter_factory where
  "ex_factory_fail e p = Inl (Error (js ''Invalid login''))"




definition ex_row_link :: row where
  "ex_row_link = ex_row(js ''Link'' \<mapsto> js ''https://example.org/j/1'')"

definition ex_row_tab :: row where
  "ex_row_tab = ex_row(js ''Name'' \<mapsto> js ''Mary'' @ [0x0009] @ js ''Ann Smith'')"

definition ex_row_dollar :: row where
  "ex_row_dollar = ex_row(js ''Name'' \<mapsto> js ''${Company} Smith'')"

definition ex_body_greeting :: jsstring where
  "ex_body_greeting = js ''<p>Hi ${firstName}</p>''"

definition ex_items_greeting :: "item list" where
  "ex_items_greeting =
     [Plain (Text (js ''<p>Hi '')), Plain (Var V_firstName), Plain (Text (js ''</p>''))]"

definition ex_fragment :: "piece list" where
  \<open>ex_fragment =
     [Text (js ''<a href="''), Var V_Link, Text (js ''">Job at ''), Var V_Company,
      Text (js ''</a>'')]\<close>

definition ex_body_link :: jsstring where
  \<open>ex_body_link =
     js ''  <p>Hi ${firstName}</p>${Link ? `<a href="${Link}">Job at ${Company}</a>` : ''
     @ [0x0027, 0x0027] @ js ''}  ''\<close>

definition ex_items_link :: "item list" where
  "ex_items_link = ex_items_greeting @ [IfLink ex_fragment]"

definition ex_body_two_lines :: jsstring where
  \<open>ex_body_two_lines =
     js ''<p>Hi ${firstName}</p>${Link ? `<a href="${Link}">\<newline>Job</a>` : ''
     @ [0x0027, 0x0027] @ js ''}''\<close>

definition ex_job_custom :: "jsstring \<Rightarrow> job" where
  "ex_job_custom body = ex_job\<lparr>customEmailBody := Some body\<rparr>"

definition ex_job_navneet :: job where
  "ex_job_navneet = ex_job\<lparr>userType := Some (js ''navneet'')\<rparr>"

definition ex_row_extra :: row where
  "ex_row_extra = ex_row(js ''Phone'' \<mapsto> js ''555-0100'')"

definition ex_row_lead :: row where
  "ex_row_lead = ex_row(js ''Name'' \<mapsto> js '' Ada Lovelace'')"

subsection \<open>Two jobs of one sender\<close>









section \<open>Properties of \<^verbatim>\<open>sendToClient\<close>\<close>

lemma sendToClient_sentMail [simp]:
  "sentMail (sendToClient email_key ev s) = sentMail s"
  by (simp add: sendToClient_def Let_def split: event.splits option.splits)

lemma sendToClient_clients [simp]:
  "clients (sendToClient email_key ev s) k = map_option (writeTo email_key ev) (clients s k)"
  by (simp add: sendToClient_def Let_def split: event.splits option.splits)

lemma sendToClient_jobs_Log [simp]:
  "emailJobs (sendToClient email_key (Log m) s) = emailJobs s"
  by (simp add: sendToClient_def)

lemma sendToClient_jobs_Complete [simp]:
  "emailJobs (sendToClient email_key (Complete su f) s) = emailJobs s"
  by (simp add: sendToClient_def)

lemma sendToClient_jobs_Progress:
  "emailJobs (sendToClient email_key (Progress t c su f) s) =
     (case emailJobs s email_key of
        None \<Rightarrow> emailJobs s
      | Some job \<Rightarrow> (emailJobs s)(email_key \<mapsto> job\<lparr>current := c, success := su, failed := f\<rparr>))"
  by (simp add: sendToClient_def split: option.splits)

text \<open>
  Claim C10. Publishing a log or a complete event leaves the job store as it is. Publishing
  a progress event changes at most the entry of the addressed sender, and there only the
  fields current, success and failed, which become the counters of the event; no entry is
  added or removed, and jobId, the rows, the template selector, the custom body, the
  credentials, status and total of every entry stay as they are.
\<close>

theorem sendToClient_frame:
  "emailJobs (sendToClient e (Log m) s) = emailJobs s
   \<and> emailJobs (sendToClient e (Complete su f) s) = emailJobs s
   \<and> emailJobs (sendToClient e (Progress t c su f) s) =
       (case emailJobs s e of
          None \<Rightarrow> emailJobs s
        | Some job \<Rightarrow> (emailJobs s)(e \<mapsto> job\<lparr>current := c, success := su, failed := f\<rparr>))
   \<and> dom (emailJobs (sendToClient e ev s)) = dom (emailJobs s)
   \<and> map_option jobId (emailJobs (sendToClient e ev s) k) = map_option jobId (emailJobs s k)
   \<and> map_option data (emailJobs (sendToClient e ev s) k) = map_option data (emailJobs s k)
   \<and> map_option email (emailJobs (sendToClient e ev s) k) = map_option email (emailJobs s k)
   \<and> map_option password (emailJobs (sendToClient e ev s) k)
       = map_option password (emailJobs s k)
   \<and> map_option userType (emailJobs (sendToClient e ev s) k)
       = map_option userType (emailJobs s k)
   \<and> map_option customEmailBody (emailJobs (sendToClient e ev s) k)
       = map_option customEmailBody (emailJobs s k)
   \<and> map_option status (emailJobs (sendToClient e ev s) k) = map_option status (emailJobs s k)
   \<and> map_option total (emailJobs (sendToClient e ev s) k) = map_option total (emailJobs s k)"
proof -
  have frame: "dom (emailJobs (sendToClient e ev s)) = dom (emailJobs s)
    \<and> (\<forall>k. map_option job.more (emailJobs (sendToClient e ev s) k)
             = map_option job.more (emailJobs s k))
    \<and> (\<forall>k. map_option (\<lambda>j. (jobId j, data j, email j, password j, userType j,
                              customEmailBody j, status j, total j))
               (emailJobs (sendToClient e ev s) k)
           = map_option (\<lambda>j. (jobId j, data j, email j, password j, userType j,
                              customEmailBody j, status j, total j)) (emailJobs s k))"
    by (cases ev) (auto simp: sendToClient_jobs_Progress split: option.splits)
  then have fields: "map_option (\<lambda>j. (jobId j, data j, email j, password j, userType j,
                              customEmailBody j, status j, total j))
               (emailJobs (sendToClient e ev s) k)
           = map_option (\<lambda>j. (jobId j, data j, email j, password j, userType j,
                              customEmailBody j, status j, total j)) (emailJobs s k)"
    by blast
  show ?thesis
    using frame fields
    by (cases "emailJobs (sendToClient e ev s) k"; cases "emailJobs s k")
       (simp_all add: sendToClient_jobs_Progress)
qed

section \<open>What subscribers receive during a job\<close>

lemma pushed_Nil [simp]: "pushed e [] cs = cs"
  by (rule ext) (simp add: pushed_def map_option_case split: option.splits)

lemma pushed_pushed [simp]: "pushed e evs2 (pushed e evs1 cs) = pushed e (evs1 @ evs2) cs"
  by (rule ext) (simp add: pushed_def map_option_case split: option.splits)

lemma clients_sendToClient: "clients (sendToClient e ev s) = pushed e [ev] (clients s)"
  by (rule ext) (simp add: pushed_def writeTo_def map_option_case split: option.splits)

lemma clients_write_job [simp]: "clients (write_job e j s) = clients s"
  by (simp add: write_job_def)

lemma sentMail_write_job [simp]: "sentMail (write_job e j s) = sentMail s"
  by (simp add: write_job_def)

lemma emailJobs_write_job [simp]: "emailJobs (write_job e j s) = (emailJobs s)(e \<mapsto> j)"
  by (simp add: write_job_def)

lemma processEmailJob_setup_error:
  assumes "emailJobs s e = Some job"
    and "createTransporter (email job) (password job) = Inl err"
  shows "clients (processEmailJob createTransporter e s) =
           pushed e [Log (js ''Error creating email transporter: '' @ message err),
                     Complete 0 (total job)] (clients s)
         \<and> sentMail (processEmailJob createTransporter e s) = sentMail s
         \<and> emailJobs (processEmailJob createTransporter e s) = (emailJobs s)(e := None)"
  using assms
  by (simp add: processEmailJob_def Let_def clients_sendToClient)

lemma iteration_missing:
  assumes "missingRequired row"
  shows "fst (iteration tr e row i (job, s)) = job\<lparr>current := i + 1, failed := failed job + 1\<rparr>
     \<and> clients (snd (iteration tr e row i (job, s))) =
         pushed e [Log (js ''Skipping row '' @ showNat (i + 1) @ js '': Missing required fields'')]
           (clients s)
     \<and> sentMail (snd (iteration tr e row i (job, s))) = sentMail s
     \<and> emailJobs (snd (iteration tr e row i (job, s))) =
         (emailJobs s)(e \<mapsto> job\<lparr>current := i + 1, failed := failed job + 1\<rparr>)"
  using assms by (simp add: iteration_def Let_def clients_sendToClient)

lemma showNat_digit: "n < 10 \<Longrightarrow> showNat n = [of_nat (48 + n)]"
  by (subst showNat.simps) simp

section \<open>The counters of progress events\<close>

subsection \<open>Reading the state after a step\<close>

lemma modify_job_simps [simp]:
  "h_clients (modify_job a f s) = h_clients s"
  "h_emailJobs (modify_job a f s) = h_emailJobs s"
  "h_sentMail (modify_job a f s) = h_sentMail s"
  "h_objects (modify_job a f s) b = (if b = a then f (h_objects s a) else h_objects s b)"
  by (simp_all add: modify_job_def)

lemma sendToClient_h_simps [simp]:
  "h_emailJobs (sendToClient_h e ev s) = h_emailJobs s"
  "h_sentMail (sendToClient_h e ev s) = h_sentMail s"
  "h_clients (sendToClient_h e ev s) k = map_option (writeTo e ev) (h_clients s k)"
  by (simp_all add: sendToClient_h_def Let_def split: event.splits option.splits)

lemma sendToClient_h_objects_other [simp]:
  "h_objects (sendToClient_h e (Log m) s) = h_objects s"
  "h_objects (sendToClient_h e (Complete su f) s) = h_objects s"
  by (simp_all add: sendToClient_h_def)


lemma only_key_cong: "h_emailJobs s' = h_emailJobs s \<Longrightarrow> only_key a e s' = only_key a e s"
  by (simp add: only_key_def)








subsection \<open>The invariant of the loop\<close>







subsection \<open>Two runs\<close>











section \<open>Skipped rows and failed set-up\<close>

text \<open>
  Claim C2. For a row in which name, email, company or role is absent or empty, the loop
  body sets current, counts the row as failed, writes one log event noting the skip to the
  subscribers, and hands nothing to the delivery capability; the result does not depend on
  the transporter, and no progress event is written for the row.
\<close>

theorem skip_missing:
  assumes "missingRequired row"
  shows "fst (iteration tr e row i (job, s)) = job\<lparr>current := i + 1, failed := failed job + 1\<rparr>
     \<and> clients (snd (iteration tr e row i (job, s))) =
         pushed e [Log (js ''Skipping row '' @ showNat (i + 1) @ js '': Missing required fields'')]
           (clients s)
     \<and> sentMail (snd (iteration tr e row i (job, s))) = sentMail s
     \<and> emailJobs (snd (iteration tr e row i (job, s))) =
         (emailJobs s)(e \<mapsto> job\<lparr>current := i + 1, failed := failed job + 1\<rparr>)
     \<and> loop tr e (row # rows) i (job, s)
         = loop tr e rows (Suc i) (iteration tr e row i (job, s))"
  using iteration_missing[OF assms, of tr e i job s] by simp

lemma ex_row_no_role_missing: "missingRequired ex_row_no_role"
  by (simp add: missingRequired_def ex_row_no_role_def js_def)

theorem skip_missing_witness:
  "missingRequired ex_row_no_role
   \<and> fst (iteration (\<lambda>sent mail. None) ex_sender ex_row_no_role 1 (ex_job, ex_server))
       = ex_job\<lparr>current := 2, failed := 1\<rparr>
   \<and> sentMail (snd (iteration (\<lambda>sent mail. None) ex_sender ex_row_no_role 1
                      (ex_job, ex_server))) = []
   \<and> map_option res (clients (snd (iteration (\<lambda>sent mail. None) ex_sender ex_row_no_role 1
                                     (ex_job, ex_server))) 7)
       = Some [Log (js ''Skipping row 2: Missing required fields'')]"
proof -
  have "failed ex_job = 0" "sentMail ex_server = []"
    "map_option res (pushed ex_sender [Log (js ''Skipping row '' @ showNat (1 + 1)
         @ js '': Missing required fields'')] (clients ex_server) 7)
     = Some [Log (js ''Skipping row 2: Missing required fields'')]"
    by (simp_all add: ex_job_def ex_server_def pushed_def showNat_digit js_def)
  with skip_missing[OF ex_row_no_role_missing, of "\<lambda>sent mail. None" ex_sender 1 ex_job ex_server]
    ex_row_no_role_missing
  show ?thesis by simp
qed

text \<open>
  Claim C6. When creating the transporter fails, every subscriber of the sender receives
  exactly one log event followed by one complete event with success 0 and failed = total,
  other clients receive nothing, nothing is handed to the delivery capability, and the job
  is removed from the job store.
\<close>

theorem setup_failure:
  assumes "emailJobs s e = Some job"
    and "createTransporter (email job) (password job) = Inl err"
  shows "clients (processEmailJob createTransporter e s) =
           pushed e [Log (js ''Error creating email transporter: '' @ message err),
                     Complete 0 (total job)] (clients s)
         \<and> sentMail (processEmailJob createTransporter e s) = sentMail s
         \<and> emailJobs (processEmailJob createTransporter e s) = (emailJobs s)(e := None)"
  using assms by (rule processEmailJob_setup_error)

theorem setup_failure_witness:
  "emailJobs ex_server ex_sender = Some ex_job
   \<and> ex_factory_fail (email ex_job) (password ex_job) = Inl (Error (js ''Invalid login''))
   \<and> map_option res (clients (processEmailJob ex_factory_fail ex_sender ex_server) 7)
       = Some [Log (js ''Error creating email transporter: Invalid login''), Complete 0 2]
   \<and> sentMail (processEmailJob ex_factory_fail ex_sender ex_server) = []
   \<and> emailJobs (processEmailJob ex_factory_fail ex_sender ex_server) ex_sender = None"
proof -
  have h: "emailJobs ex_server ex_sender = Some ex_job"
    "ex_factory_fail (email ex_job) (password ex_job) = Inl (Error (js ''Invalid login''))"
    by (simp_all add: ex_server_def ex_factory_fail_def)
  have "total ex_job = 2" "sentMail ex_server = []"
    "map_option res (pushed ex_sender [Log (js ''Error creating email transporter: ''
         @ message (Error (js ''Invalid login''))), Complete 0 2] (clients ex_server) 7)
     = Some [Log (js ''Error creating email transporter: Invalid login''), Complete 0 2]"
    by (simp_all add: ex_job_def ex_server_def pushed_def js_def)
  with setup_failure[of ex_server ex_sender ex_job ex_factory_fail
         "Error (js ''Invalid login'')", OF h] h
  show ?thesis by simp
qed

section \<open>Subscribing\<close>

text \<open>
  Claim C7. A subscription with a sender identity registers a client whose response has
  received exactly one progress event carrying total, current, success and failed of the
  sender's job store entry when there is one, and nothing when there is none; nothing is
  written to any other client, and the job store is not changed.
\<close>

theorem subscribe_snapshot:
  assumes "truthy q"
  shows "fst (send_emails_sse now q s) = None
     \<and> clients (snd (send_emails_sse now q s)) now =
         Some \<lparr>id_c = now, email_c = toStr q,
               res = (case emailJobs s (toStr q) of
                        Some job \<Rightarrow>
                          [Progress (total job) (current job) (success job) (failed job)]
                      | None \<Rightarrow> [])\<rparr>
     \<and> (k \<noteq> now \<longrightarrow> clients (snd (send_emails_sse now q s)) k = clients s k)
     \<and> emailJobs (snd (send_emails_sse now q s)) = emailJobs s
     \<and> sentMail (snd (send_emails_sse now q s)) = sentMail s"
  using assms by (simp add: send_emails_sse_def Let_def)

theorem subscribe_snapshot_witness:
  "truthy (Some ex_sender)
   \<and> map_option res (clients (snd (send_emails_sse 8 (Some ex_sender) ex_server)) 8)
       = Some [Progress 2 0 0 0]
   \<and> map_option res (clients (snd (send_emails_sse 8 (Some (js ''nobody@example.org''))
                                     ex_server)) 8) = Some []
   \<and> clients (snd (send_emails_sse 8 (Some ex_sender) ex_server)) 7 = clients ex_server 7"
proof -
  have t: "truthy (Some ex_sender)" "truthy (Some (js ''nobody@example.org''))"
    by (simp_all add: ex_sender_def js_def)
  have j: "emailJobs ex_server ex_sender = Some ex_job"
    "emailJobs ex_server (js ''nobody@example.org'') = None"
    "total ex_job = 2" "current ex_job = 0" "success ex_job = 0" "failed ex_job = 0"
    by (simp_all add: ex_server_def ex_job_def ex_sender_def js_def)
  show ?thesis
    using subscribe_snapshot[OF t(1), of 8 ex_server 7]
      subscribe_snapshot[OF t(2), of 8 ex_server 7] t j
    by simp
qed

section \<open>Rendering a structured template\<close>
subsection \<open>Scanning lemmas for \<open>replace_g\<close>\<close>

lemma replace_g_Nil: "starts_dollar re \<Longrightarrow> replace_g re f pre [] = []"
  by (subst replace_g.simps) (simp add: starts_dollar_def)

lemma replace_g_copy1:
  "re (c # s) = None \<Longrightarrow> replace_g re f pre (c # s) = c # replace_g re f (pre @ [c]) s"
  by (subst replace_g.simps) simp

lemma replace_g_copy:
  "starts_dollar re \<Longrightarrow> 0x0024 \<notin> set t \<Longrightarrow>
   replace_g re f pre (t @ s) = t @ replace_g re f (pre @ t) s"
proof (induction t arbitrary: pre)
  case Nil
  then show ?case by simp
next
  case (Cons c t)
  from Cons.prems have "re (c # t @ s) = None"
    by (auto simp: starts_dollar_def)
  then show ?case using Cons by (simp add: replace_g_copy1)
qed

lemma replace_g_lit_match:
  "p \<noteq> [] \<Longrightarrow>
   replace_g (exec_lit p) f pre (p @ s) = f p [] pre s @ replace_g (exec_lit p) f (pre @ p) s"
  by (subst replace_g.simps) (simp add: exec_lit_def)

lemma placeholder_shape: "\<exists>q. placeholder v = 0x0024 # q \<and> 0x0024 \<notin> set q \<and> 0x0060 \<notin> set q
   \<and> list_all (\<lambda>c. \<not> lineTerminator c) (placeholder v)"
  by (cases v) (simp_all add: js_def lineTerminator_def)

lemma replace_g_skip_placeholder:
  assumes "starts_dollar re" and "re (placeholder w @ s) = None"
  shows "replace_g re f pre (placeholder w @ s) = placeholder w @ replace_g re f (pre @ placeholder w) s"
proof -
  obtain q where q: "placeholder w = 0x0024 # q" "0x0024 \<notin> set q"
    using placeholder_shape by blast
  from assms(2) q have "replace_g re f pre (placeholder w @ s) = 0x0024 # replace_g re f (pre @ [0x0024]) (q @ s)"
    by (simp add: replace_g_copy1)
  also have "replace_g re f (pre @ [0x0024]) (q @ s) = q @ replace_g re f ((pre @ [0x0024]) @ q) s"
    by (rule replace_g_copy[OF assms(1) q(2)])
  finally show ?thesis using q by simp
qed

subsection \<open>One placeholder pass over a structured text\<close>

lemma starts_dollar_lit: "starts_dollar (exec_lit (placeholder v))"
  using placeholder_shape[of v]
  by (auto simp: starts_dollar_def exec_lit_def)

lemma placeholder_distinct: "v \<noteq> w \<Longrightarrow> exec_lit (placeholder v) (placeholder w @ s) = None"
  by (cases v; cases w) (simp_all add: exec_lit_def js_def)

lemma getSubstitution_plain: "0x0024 \<notin> set r \<Longrightarrow> getSubstitution m pre post r = r"
  by (induction m pre post r rule: getSubstitution.induct) auto

lemma pass_pieces:
  assumes "0x0024 \<notin> set val" and "list_all plain_piece_ok ps"
  shows "replace_g (exec_lit (placeholder v)) (\<lambda>m caps pre post. getSubstitution m pre post val) pre
            (pieces_source ps)
         = pieces_source (map (subst_piece v val) ps)"
  using assms(2)
proof (induction ps arbitrary: pre)
  case Nil
  then show ?case by (simp add: pieces_source_def replace_g_Nil starts_dollar_lit)
next
  case (Cons p ps)
  then have IH: "\<And>pre. replace_g (exec_lit (placeholder v)) (\<lambda>m caps pre post. getSubstitution m pre post val) pre
            (pieces_source ps) = pieces_source (map (subst_piece v val) ps)" by simp
  show ?case
  proof (cases p)
    case (Text t)
    with Cons.prems have "0x0024 \<notin> set t" by simp
    then show ?thesis using Text IH
      by (simp add: pieces_source_def replace_g_copy[OF starts_dollar_lit])
  next
    case (Var w)
    show ?thesis
    proof (cases "w = v")
      case True
      have "placeholder v \<noteq> []" using placeholder_shape[of v] by auto
      then show ?thesis using Var True IH assms(1)
        by (simp add: pieces_source_def replace_g_lit_match getSubstitution_plain)
    next
      case False
      then have "exec_lit (placeholder v) (placeholder w @ concat (map piece_source ps)) = None"
        by (simp add: placeholder_distinct)
      then show ?thesis using Var False IH
        by (simp add: pieces_source_def replace_g_skip_placeholder[OF starts_dollar_lit])
    qed
  qed
qed

lemma pass_ok: "0x0024 \<notin> set val \<Longrightarrow> list_all plain_piece_ok ps \<Longrightarrow>
   list_all plain_piece_ok (map (subst_piece v val) ps)"
  by (induction ps) (auto split: piece.splits, (case_tac a; simp)+)

lemma pass_str:
  "0x0024 \<notin> set val \<Longrightarrow> list_all plain_piece_ok ps \<Longrightarrow>
   replace_str (exec_lit (placeholder v)) val (pieces_source ps)
     = pieces_source (map (subst_piece v val) ps)"
  by (simp add: replace_str_def pass_pieces)

lemma six_subst_piece:
  "piece_source
     (subst_piece V_Link (vals V_Link)
       (subst_piece V_Role (vals V_Role)
         (subst_piece V_Email (vals V_Email)
           (subst_piece V_Company (vals V_Company)
             (subst_piece V_Name (vals V_Name)
               (subst_piece V_firstName (vals V_firstName) p))))))
   = piece_value vals p"
proof (cases p)
  case (Text t)
  then show ?thesis by simp
next
  case (Var w)
  then show ?thesis by (cases w) simp_all
qed

lemma replaceVariables_pieces:
  assumes vals: "vals = field_values firstName Name Company Email Role Link"
    and free: "\<And>v. 0x0024 \<notin> set (vals v)"
    and ok: "list_all plain_piece_ok ps"
  shows "replaceVariables firstName Name Company Email Role Link (pieces_source ps)
         = concat (map (piece_value vals) ps)"
proof -
  have v: "toStr firstName = vals V_firstName" "Name = vals V_Name"
    "toStr Company = vals V_Company" "toStr Email = vals V_Email" "toStr Role = vals V_Role"
    "(if truthy Link then toStr Link else []) = vals V_Link"
    by (simp_all add: vals field_values_def)
  let ?p1 = "map (subst_piece V_firstName (vals V_firstName)) ps"
  let ?p2 = "map (subst_piece V_Name (vals V_Name)) ?p1"
  let ?p3 = "map (subst_piece V_Company (vals V_Company)) ?p2"
  let ?p4 = "map (subst_piece V_Email (vals V_Email)) ?p3"
  let ?p5 = "map (subst_piece V_Role (vals V_Role)) ?p4"
  let ?p6 = "map (subst_piece V_Link (vals V_Link)) ?p5"
  have ok1: "list_all plain_piece_ok ?p1" by (rule pass_ok[OF free ok])
  have ok2: "list_all plain_piece_ok ?p2" by (rule pass_ok[OF free ok1])
  have ok3: "list_all plain_piece_ok ?p3" by (rule pass_ok[OF free ok2])
  have ok4: "list_all plain_piece_ok ?p4" by (rule pass_ok[OF free ok3])
  have ok5: "list_all plain_piece_ok ?p5" by (rule pass_ok[OF free ok4])
  have "replaceVariables firstName Name Company Email Role Link (pieces_source ps)
        = replace_str (exec_lit (placeholder V_Link)) (vals V_Link)
           (replace_str (exec_lit (placeholder V_Role)) (vals V_Role)
             (replace_str (exec_lit (placeholder V_Email)) (vals V_Email)
               (replace_str (exec_lit (placeholder V_Company)) (vals V_Company)
                 (replace_str (exec_lit (placeholder V_Name)) (vals V_Name)
                   (replace_str (exec_lit (placeholder V_firstName)) (vals V_firstName)
                      (pieces_source ps))))))"
    unfolding replaceVariables_def v placeholder.simps ..
  also have "\<dots> = pieces_source ?p6"
    by (simp only: pass_str[OF free ok] pass_str[OF free ok1] pass_str[OF free ok2]
          pass_str[OF free ok3] pass_str[OF free ok4] pass_str[OF free ok5])
  also have "\<dots> = concat (map (piece_value vals) ps)"
    by (simp add: pieces_source_def comp_def six_subst_piece)
  finally show ?thesis .
qed

subsection \<open>The conditional pass over a structured template\<close>

lemma starts_dollar_link: "starts_dollar linkRegex"
  by (simp add: starts_dollar_def linkRegex_def link_open_def js_def)

lemma linkRegex_placeholder: "linkRegex (placeholder w @ s) = None"
  by (cases w) (simp_all add: linkRegex_def link_open_def js_def)

lemma lazy_dot_until_fragment:
  "0x0060 \<notin> set t \<Longrightarrow> list_all (\<lambda>c. \<not> lineTerminator c) t \<Longrightarrow>
   lazy_dot_until link_close (t @ link_close @ s) = Some (t, s)"
proof (induction t)
  case Nil
  then show ?case by (simp add: link_close_def js_def)
next
  case (Cons c t)
  then have "\<not> prefix link_close (c # t @ link_close @ s)"
    by (simp add: link_close_def js_def)
  then show ?case using Cons by simp
qed

lemma placeholder_plain:
  "0x0060 \<notin> set (placeholder v)" "list_all (\<lambda>c. \<not> lineTerminator c) (placeholder v)"
  by (cases v; simp add: js_def lineTerminator_def)+

lemma fragment_source:
  "list_all fragment_piece_ok ps \<Longrightarrow>
   0x0060 \<notin> set (pieces_source ps) \<and> list_all (\<lambda>c. \<not> lineTerminator c) (pieces_source ps)"
proof (induction ps)
  case Nil
  then show ?case by (simp add: pieces_source_def)
next
  case (Cons p ps)
  then show ?case
    by (cases p) (simp_all add: pieces_source_def placeholder_plain)
qed

lemma linkRegex_match:
  assumes "list_all fragment_piece_ok ps"
  shows "linkRegex (link_open @ pieces_source ps @ link_close @ s)
         = Some (link_open @ pieces_source ps @ link_close, [pieces_source ps], s)"
  using fragment_source[OF assms]
  by (simp add: linkRegex_def lazy_dot_until_fragment)

lemma replace_g_link_match:
  assumes "list_all fragment_piece_ok ps"
  shows "replace_g linkRegex f pre (link_open @ pieces_source ps @ link_close @ s)
         = f (link_open @ pieces_source ps @ link_close) [pieces_source ps] pre s
           @ replace_g linkRegex f (pre @ link_open @ pieces_source ps @ link_close) s"
proof -
  have "link_open \<noteq> []" by (simp add: link_open_def js_def)
  then show ?thesis
    by (subst replace_g.simps) (simp add: linkRegex_match[OF assms])
qed

lemma resolve_items:
  assumes "list_all item_ok items"
  shows "replace_g linkRegex
           (\<lambda>m caps pre post. (if lp then toStr (case caps of [] \<Rightarrow> None | c # _ \<Rightarrow> Some c) else []))
           pre (template_source items)
         = pieces_source (concat (map (resolve_item lp) items))"
  using assms
proof (induction items arbitrary: pre)
  case Nil
  then show ?case
    by (simp add: template_source_def pieces_source_def replace_g_Nil starts_dollar_link)
next
  case (Cons it items)
  then have IH: "\<And>pre. replace_g linkRegex
           (\<lambda>m caps pre post. (if lp then toStr (case caps of [] \<Rightarrow> None | c # _ \<Rightarrow> Some c) else []))
           pre (template_source items)
         = pieces_source (concat (map (resolve_item lp) items))" by simp
  show ?case
  proof (cases it)
    case (Plain p)
    show ?thesis
    proof (cases p)
      case (Text t)
      with Plain Cons.prems have "0x0024 \<notin> set t" by simp
      then show ?thesis using Plain Text IH[unfolded template_source_def pieces_source_def]
        by (simp add: template_source_def pieces_source_def replace_g_copy[OF starts_dollar_link])
    next
      case (Var w)
      then show ?thesis using Plain IH[unfolded template_source_def pieces_source_def]
        by (simp add: template_source_def pieces_source_def
              replace_g_skip_placeholder[OF starts_dollar_link linkRegex_placeholder])
    qed
  next
    case (IfLink ps)
    with Cons.prems have ok: "list_all fragment_piece_ok ps" by simp
    show ?thesis using IfLink IH[unfolded template_source_def]
      by (simp add: template_source_def replace_g_link_match[OF ok])
         (simp add: pieces_source_def)
  qed
qed

lemma fragment_ok_plain: "list_all fragment_piece_ok ps \<Longrightarrow> list_all plain_piece_ok ps"
proof (induction ps)
  case Nil
  then show ?case by simp
next
  case (Cons p ps)
  then show ?case by (cases p) simp_all
qed

lemma resolved_ok:
  "list_all item_ok items \<Longrightarrow> list_all plain_piece_ok (concat (map (resolve_item lp) items))"
proof (induction items)
  case Nil
  then show ?case by simp
next
  case (Cons it items)
  then show ?case by (cases it) (simp_all add: fragment_ok_plain)
qed

lemma resolved_value:
  "concat (map (piece_value vals) (concat (map (resolve_item lp) items)))
   = template_value lp vals items"
proof (induction items)
  case Nil
  then show ?case by (simp add: template_value_def)
next
  case (Cons it items)
  then show ?case by (cases it) (simp_all add: template_value_def)
qed

lemma render_structured:
  assumes vals: "vals = field_values firstName Name Company Email Role Link"
    and free: "\<And>v. 0x0024 \<notin> set (vals v)"
    and ok: "list_all item_ok items"
  shows "replaceVariables firstName Name Company Email Role Link
           (resolveLink Link (template_source items))
         = template_value (truthy Link) vals items"
proof -
  have "resolveLink Link (template_source items)
        = pieces_source (concat (map (resolve_item (truthy Link)) items))"
    unfolding resolveLink_def replace_fn_def by (rule resolve_items[OF ok])
  then show ?thesis
    by (simp add: replaceVariables_pieces[OF vals free resolved_ok[OF ok]] resolved_value)
qed

lemma custom_1_plain: "0x0024 \<notin> set custom_1"
  by (simp add: custom_1_def js_def)
lemma custom_2_plain: "0x0024 \<notin> set custom_2"
  by (simp add: custom_2_def js_def)
lemma custom_3_plain: "0x0024 \<notin> set custom_3"
  by (simp add: custom_3_def js_def)
lemma emailStyles_plain: "0x0024 \<notin> set emailStyles"
  by (simp add: emailStyles_def js_def)

lemma customTemplate_structured:
  assumes vals: "vals = field_values firstName Name Company Email Role Link"
    and free: "\<And>v. 0x0024 \<notin> set (vals v)"
    and src: "trim body = template_source items"
    and ok: "list_all item_ok items"
  shows "customTemplate body firstName Name Company Email Role Link
         = custom_1 @ emailStyles @ custom_2 @ template_value (truthy Link) vals items @ custom_3"
proof -
  let ?doc = "[Plain (Text custom_1), Plain (Text emailStyles), Plain (Text custom_2)] @ items
              @ [Plain (Text custom_3)]"
  have doc: "custom_1 @ emailStyles @ custom_2 @ trim body @ custom_3 = template_source ?doc"
    by (simp add: src template_source_def)
  have "list_all item_ok ?doc"
    using ok by (simp add: custom_1_plain custom_2_plain custom_3_plain emailStyles_plain)
  from render_structured[OF vals free this]
  show ?thesis
    unfolding customTemplate_def Let_def doc
    by (simp add: template_value_def)
qed

lemma piece_value_plain:
  "(\<And>v. 0x0024 \<notin> set (vals v)) \<Longrightarrow> plain_piece_ok p \<Longrightarrow> 0x0024 \<notin> set (piece_value vals p)"
  by (cases p) simp_all

lemma item_value_plain:
  assumes "\<And>v. 0x0024 \<notin> set (vals v)" and "item_ok it"
  shows "0x0024 \<notin> set (item_value lp vals it)"
proof (cases it)
  case (Plain p)
  then show ?thesis using assms piece_value_plain[of vals p] by simp
next
  case (IfLink ps)
  with assms(2) have "list_all plain_piece_ok ps" by (simp add: fragment_ok_plain)
  then have "\<forall>p\<in>set ps. 0x0024 \<notin> set (piece_value vals p)"
    using piece_value_plain[OF assms(1)] by (auto simp: list_all_iff)
  then show ?thesis using IfLink by simp
qed

lemma template_value_plain:
  assumes "\<And>v. 0x0024 \<notin> set (vals v)" and "list_all item_ok items"
  shows "0x0024 \<notin> set (template_value lp vals items)"
  using assms(2) item_value_plain[OF assms(1)]
  by (auto simp: template_value_def list_all_iff)

lemma buildMailOptions_custom:
  assumes "row (js ''Name'') = Some name" and "userType job = Some (js ''other'')"
    and "customEmailBody job = Some body" and "body \<noteq> []"
  shows "map_sum id html (buildMailOptions row job)
         = Inr (customTemplate body (firstName_of name) name (row (js ''Company''))
                  (row (js ''Email'')) (row (js ''Role'')) (row (js ''Link'')))"
  using assms by (simp add: buildMailOptions_def Let_def js_def)

subsection \<open>Evaluating a concrete rendering\<close>

lemma replace_g_Nil_eval:
  "replace_g re f pre [] =
     (case re [] of Some (m, caps, rest) \<Rightarrow> f m caps pre rest | None \<Rightarrow> [])"
  by (subst replace_g.simps) (simp split: option.splits)

lemma replace_g_Cons_eval:
  "replace_g re f pre (c # s) =
     (case re (c # s) of
        Some (m, caps, rest) \<Rightarrow>
          if length rest < Suc (length s)
          then f m caps pre rest @ replace_g re f (pre @ m) rest
          else f m caps pre rest @ c # replace_g re f (pre @ [c]) s
      | None \<Rightarrow> c # replace_g re f (pre @ [c]) s)"
  by (subst replace_g.simps) (simp split: option.splits)

lemma starts_dollar_exec_lit: "starts_dollar (exec_lit (0x0024 # p))"
  by (simp add: starts_dollar_def exec_lit_def)

lemma replace_g_document:
  assumes "starts_dollar re"
  shows "replace_g re f pre (custom_1 @ emailStyles @ custom_2 @ s)
         = custom_1 @ emailStyles @ custom_2
           @ replace_g re f (pre @ custom_1 @ emailStyles @ custom_2) s"
proof -
  have "0x0024 \<notin> set (custom_1 @ emailStyles @ custom_2)"
    by (simp add: custom_1_plain custom_2_plain emailStyles_plain)
  from replace_g_copy[OF assms this, of f pre s] show ?thesis by simp
qed

lemmas render_eval =
  customTemplate_def replaceVariables_def resolveLink_def replace_fn_def replace_str_def
  replace_g_document[OF starts_dollar_link] replace_g_document[OF starts_dollar_exec_lit]
  replace_g_Nil_eval replace_g_Cons_eval linkRegex_def exec_lit_def link_open_def
  link_close_def lineTerminator_def trim_def whiteSpace_def custom_3_def js_def Let_def

section \<open>The custom variant\<close>

text \<open>
  Claim C4, as amended. In the custom variant the conditional-link replacement is applied
  to the document first and the chain of six placeholder replacements is applied, once,
  to its result. When the trimmed body is a structured template and no replacement value
  contains a dollar sign, the result is what one pass of a placeholder resolver gives: each
  placeholder, also inside a conditional fragment, is replaced by its value, and nothing
  is substituted again.
\<close>

theorem custom_render_two_passes:
  assumes "row (js ''Name'') = Some name" and "userType job = Some (js ''other'')"
    and "customEmailBody job = Some body" and "body \<noteq> []"
  shows "map_sum id html (buildMailOptions row job)
         = Inr (replaceVariables (firstName_of name) name (row (js ''Company''))
                  (row (js ''Email'')) (row (js ''Role'')) (row (js ''Link''))
                  (resolveLink (row (js ''Link''))
                     (custom_1 @ emailStyles @ custom_2 @ trim body @ custom_3)))
     \<and> (trim body = template_source items \<and> list_all item_ok items
        \<and> (\<forall>v. 0x0024 \<notin> set (field_values (firstName_of name) name (row (js ''Company''))
                                  (row (js ''Email'')) (row (js ''Role'')) (row (js ''Link'')) v))
        \<longrightarrow> map_sum id html (buildMailOptions row job)
            = Inr (custom_1 @ emailStyles @ custom_2
                   @ template_value (truthy (row (js ''Link'')))
                       (field_values (firstName_of name) name (row (js ''Company''))
                          (row (js ''Email'')) (row (js ''Role'')) (row (js ''Link''))) items
                   @ custom_3))"
proof -
  have 1: "map_sum id html (buildMailOptions row job)
         = Inr (customTemplate body (firstName_of name) name (row (js ''Company''))
                  (row (js ''Email'')) (row (js ''Role'')) (row (js ''Link'')))"
    using assms by (rule buildMailOptions_custom)
  show ?thesis
    unfolding 1
    by (auto simp: customTemplate_structured[OF refl])
       (simp add: customTemplate_def Let_def)
qed

section \<open>The first name\<close>

lemma split_on_head: "\<exists>ps. split_on sep s = takeWhile (\<lambda>c. c \<noteq> sep) s # ps"
  by (induction s) auto

lemma firstName_of_takeWhile: "firstName_of name = Some (takeWhile (\<lambda>c. c \<noteq> 0x0020) name)"
  using split_on_head[of "0x0020" name] by (auto simp: firstName_of_def)

lemma whiteSpace_space: "whiteSpace 0x0020"
  by (simp add: whiteSpace_def)

lemma token_agree:
  assumes "list_all (\<lambda>c. whiteSpace c \<longrightarrow> c = 0x0020) name" and "\<not> prefix [0x0020] name"
  shows "takeWhile (\<lambda>c. c \<noteq> 0x0020) name = first_whitespace_token name"
proof -
  have eq: "\<And>c. c \<in> set name \<Longrightarrow> (c \<noteq> 0x0020) = (\<not> whiteSpace c)"
    using assms(1) whiteSpace_space by (auto simp: list_all_iff)
  have "dropWhile whiteSpace name = name"
  proof (cases name)
    case Nil
    then show ?thesis by simp
  next
    case (Cons c cs)
    with assms(2) have "c \<noteq> 0x0020" by simp
    with eq[of c] Cons have "\<not> whiteSpace c" by simp
    with Cons show ?thesis by simp
  qed
  then show ?thesis
    unfolding first_whitespace_token_def using eq by (simp cong: takeWhile_cong)
qed

lemma buildMailOptions_navneet:
  assumes "row (js ''Name'') = Some name" and "userType job = Some (js ''navneet'')"
  shows "map_sum id html (buildMailOptions row job)
         = Inr (navneetTemplate (firstName_of name) (row (js ''Role''))
                  (row (js ''Company'')) (row (js ''Link'')))"
  using assms by (simp add: buildMailOptions_def Let_def)

text \<open>
  Claim C9, as amended. The first name used by both variants is the part of the name
  before its first space character (U+0020): other whitespace does not end it, and it is
  empty when the name begins with a space. It equals the first whitespace-delimited token
  when the name has no whitespace other than spaces and does not begin with a space.
\<close>

theorem first_name_space_prefix:
  assumes "row (js ''Name'') = Some name"
  shows "firstName_of name = Some (takeWhile (\<lambda>c. c \<noteq> 0x0020) name)
     \<and> (userType job = Some (js ''navneet'') \<longrightarrow>
          map_sum id html (buildMailOptions row job)
          = Inr (navneetTemplate (Some (takeWhile (\<lambda>c. c \<noteq> 0x0020) name))
                   (row (js ''Role'')) (row (js ''Company'')) (row (js ''Link''))))
     \<and> (userType job = Some (js ''other'') \<and> customEmailBody job = Some body \<and> body \<noteq> [] \<longrightarrow>
          map_sum id html (buildMailOptions row job)
          = Inr (customTemplate body (Some (takeWhile (\<lambda>c. c \<noteq> 0x0020) name)) name
                   (row (js ''Company'')) (row (js ''Email'')) (row (js ''Role''))
                   (row (js ''Link''))))
     \<and> (list_all (\<lambda>c. whiteSpace c \<longrightarrow> c = 0x0020) name \<and> \<not> prefix [0x0020] name \<longrightarrow>
          firstName_of name = Some (first_whitespace_token name))"
  using assms buildMailOptions_navneet[of row name job]
    buildMailOptions_custom[of row name job body]
    firstName_of_takeWhile[of name] token_agree[of name]
  by simp

theorem first_name_space_prefix_witness:
  "ex_row (js ''Name'') = Some (js ''Ada Lovelace'')
   \<and> userType ex_job_navneet = Some (js ''navneet'')
   \<and> userType (ex_job_custom ex_body_greeting) = Some (js ''other'')
   \<and> customEmailBody (ex_job_custom ex_body_greeting) = Some ex_body_greeting
   \<and> ex_body_greeting \<noteq> []
   \<and> list_all (\<lambda>c. whiteSpace c \<longrightarrow> c = 0x0020) (js ''Ada Lovelace'')
   \<and> \<not> prefix [0x0020] (js ''Ada Lovelace'')
   \<and> firstName_of (js ''Ada Lovelace'') = Some (js ''Ada'')
   \<and> map_sum id html (buildMailOptions ex_row ex_job_navneet)
       = Inr (navneetTemplate (Some (js ''Ada'')) (Some (js ''Engineer'')) (Some (js ''Acme''))
                None)
   \<and> map_sum id html (buildMailOptions ex_row (ex_job_custom ex_body_greeting))
       = Inr (customTemplate ex_body_greeting (Some (js ''Ada'')) (js ''Ada Lovelace'')
                (Some (js ''Acme'')) (Some (js ''ada@example.org'')) (Some (js ''Engineer''))
                None)
   \<and> first_whitespace_token (js ''Ada Lovelace'') = js ''Ada''"
proof -
  have h: "ex_row (js ''Name'') = Some (js ''Ada Lovelace'')"
    "userType ex_job_navneet = Some (js ''navneet'')"
    "userType (ex_job_custom ex_body_greeting) = Some (js ''other'')"
    "customEmailBody (ex_job_custom ex_body_greeting) = Some ex_body_greeting"
    "ex_body_greeting \<noteq> []"
    by (simp_all add: ex_row_def ex_job_navneet_def ex_job_custom_def ex_job_def
          ex_body_greeting_def js_def)
  have ws: "list_all (\<lambda>c. whiteSpace c \<longrightarrow> c = 0x0020) (js ''Ada Lovelace'')"
    "\<not> prefix [0x0020] (js ''Ada Lovelace'')"
    by (simp_all add: js_def whiteSpace_def lineTerminator_def)
  have v: "takeWhile (\<lambda>c. c \<noteq> 0x0020) (js ''Ada Lovelace'') = js ''Ada''"
    "ex_row (js ''Role'') = Some (js ''Engineer'')" "ex_row (js ''Company'') = Some (js ''Acme'')"
    "ex_row (js ''Email'') = Some (js ''ada@example.org'')" "ex_row (js ''Link'') = None"
    by (simp_all add: ex_row_def js_def)
  from first_name_space_prefix[of ex_row "js ''Ada Lovelace''" ex_job_navneet ex_body_greeting, OF h(1)]
    first_name_space_prefix[of ex_row "js ''Ada Lovelace''" "ex_job_custom ex_body_greeting"
      ex_body_greeting, OF h(1)] h ws v
  show ?thesis by simp
qed

lemma ex_row_tab_name: "ex_row_tab (js ''Name'') = Some (js ''Mary'' @ [0x0009] @ js ''Ann Smith'')"
  by (simp add: ex_row_tab_def)

lemma ex_row_lead_name: "ex_row_lead (js ''Name'') = Some (js '' Ada Lovelace'')"
  by (simp add: ex_row_lead_def)

text \<open>
  For a name with a tab after the given name, the first whitespace-delimited token is the
  given name, but the first name rendered runs up to the first space. For a name that
  begins with a space, the first whitespace-delimited token is the given name, but the
  first name rendered is empty.
\<close>

theorem first_name_counterexample:
  "ex_row_tab (js ''Name'') = Some (js ''Mary'' @ [0x0009] @ js ''Ann Smith'')
   \<and> first_whitespace_token (js ''Mary'' @ [0x0009] @ js ''Ann Smith'') = js ''Mary''
   \<and> firstName_of (js ''Mary'' @ [0x0009] @ js ''Ann Smith'')
       = Some (js ''Mary'' @ [0x0009] @ js ''Ann'')
   \<and> map_sum id html (buildMailOptions ex_row_tab ex_job_navneet)
       = Inr (navneetTemplate (Some (js ''Mary'' @ [0x0009] @ js ''Ann''))
                (Some (js ''Engineer'')) (Some (js ''Acme'')) None)
   \<and> ex_row_lead (js ''Name'') = Some (js '' Ada Lovelace'')
   \<and> first_whitespace_token (js '' Ada Lovelace'') = js ''Ada''
   \<and> firstName_of (js '' Ada Lovelace'') = Some (js '''')
   \<and> map_sum id html (buildMailOptions ex_row_lead ex_job_navneet)
       = Inr (navneetTemplate (Some (js '''')) (Some (js ''Engineer'')) (Some (js ''Acme''))
                None)"
proof -
  have n: "firstName_of (js ''Mary'' @ [0x0009] @ js ''Ann Smith'')
           = Some (js ''Mary'' @ [0x0009] @ js ''Ann'')"
    "first_whitespace_token (js ''Mary'' @ [0x0009] @ js ''Ann Smith'') = js ''Mary''"
    "firstName_of (js '' Ada Lovelace'') = Some (js '''')"
    "first_whitespace_token (js '' Ada Lovelace'') = js ''Ada''"
    by (simp_all add: firstName_of_def first_whitespace_token_def js_def whiteSpace_def
          lineTerminator_def)
  have r: "ex_row_tab (js ''Role'') = Some (js ''Engineer'')"
    "ex_row_tab (js ''Company'') = Some (js ''Acme'')" "ex_row_tab (js ''Link'') = None"
    "userType ex_job_navneet = Some (js ''navneet'')"
    "ex_row_lead (js ''Role'') = Some (js ''Engineer'')"
    "ex_row_lead (js ''Company'') = Some (js ''Acme'')" "ex_row_lead (js ''Link'') = None"
    by (simp_all add: ex_row_tab_def ex_row_lead_def ex_row_def ex_job_navneet_def js_def)
  from buildMailOptions_navneet[of ex_row_tab _ ex_job_navneet, OF ex_row_tab_name r(4)]
    buildMailOptions_navneet[of ex_row_lead _ ex_job_navneet, OF ex_row_lead_name r(4)] n r
    ex_row_tab_name ex_row_lead_name
  show ?thesis by simp
qed

section \<open>Rendering is a function of the record\<close>

text \<open>
  Claim C8. The subject and the HTML that \<open>sendEmail\<close> renders, or the error it throws
  before sending, are determined by the five fields of the record, the template selector
  and the custom body: two renderings that agree on these give identical results, whatever
  the counters of the job, the other columns of the row, the transporter and the messages
  sent before; and the message handed to the delivery capability is that rendering.
\<close>

theorem render_function_of_record:
  assumes "row (js ''Name'') = row' (js ''Name'')" and "row (js ''Email'') = row' (js ''Email'')"
    and "row (js ''Company'') = row' (js ''Company'')" and "row (js ''Role'') = row' (js ''Role'')"
    and "row (js ''Link'') = row' (js ''Link'')"
    and "userType job = userType job'" and "customEmailBody job = customEmailBody job'"
  shows "map_sum id (\<lambda>m. (subject m, html m)) (buildMailOptions row job)
         = map_sum id (\<lambda>m. (subject m, html m)) (buildMailOptions row' job')
     \<and> (case buildMailOptions row job of
          Inl err \<Rightarrow> sendEmail tr row job sent = (Inl err, sent)
        | Inr m \<Rightarrow> snd (sendEmail tr row job sent) = sent @ [m])"
proof -
  have "map_sum id (\<lambda>m. (subject m, html m)) (buildMailOptions row job)
         = map_sum id (\<lambda>m. (subject m, html m)) (buildMailOptions row' job')"
    unfolding buildMailOptions_def Let_def assms
    by (simp split: option.splits)
  moreover have "(case buildMailOptions row job of
          Inl err \<Rightarrow> sendEmail tr row job sent = (Inl err, sent)
        | Inr m \<Rightarrow> snd (sendEmail tr row job sent) = sent @ [m])"
    by (simp add: sendEmail_def split: sum.splits option.splits)
  ultimately show ?thesis by simp
qed

section \<open>Starting a job without a custom body\<close>









section \<open>The custom variant on examples\<close>

lemma ex_row_link_fields:
  "ex_row_link (js ''Name'') = Some (js ''Ada Lovelace'')"
  "ex_row_link (js ''Company'') = Some (js ''Acme'')"
  "ex_row_link (js ''Email'') = Some (js ''ada@example.org'')"
  "ex_row_link (js ''Role'') = Some (js ''Engineer'')"
  "ex_row_link (js ''Link'') = Some (js ''https://example.org/j/1'')"
  by (simp_all add: ex_row_link_def ex_row_def js_def)

lemma ex_row_fields:
  "ex_row (js ''Name'') = Some (js ''Ada Lovelace'')"
  "ex_row (js ''Company'') = Some (js ''Acme'')"
  "ex_row (js ''Email'') = Some (js ''ada@example.org'')"
  "ex_row (js ''Role'') = Some (js ''Engineer'')"
  "ex_row (js ''Link'') = None"
  by (simp_all add: ex_row_def js_def)

lemma ex_row_dollar_fields:
  "ex_row_dollar (js ''Name'') = Some (js ''${Company} Smith'')"
  "ex_row_dollar (js ''Company'') = Some (js ''Acme'')"
  "ex_row_dollar (js ''Email'') = Some (js ''ada@example.org'')"
  "ex_row_dollar (js ''Role'') = Some (js ''Engineer'')"
  "ex_row_dollar (js ''Link'') = None"
  by (simp_all add: ex_row_dollar_def ex_row_def js_def)

lemma ex_job_custom_fields:
  "userType (ex_job_custom body) = Some (js ''other'')"
  "customEmailBody (ex_job_custom body) = Some body"
  by (simp_all add: ex_job_custom_def ex_job_def)

lemma ex_first_names:
  "firstName_of (js ''Ada Lovelace'') = Some (js ''Ada'')"
  "firstName_of (js ''${Company} Smith'') = Some (js ''${Company}'')"
  by (simp_all add: firstName_of_def js_def)

lemma ex_items_link_ok:
  "trim ex_body_link = template_source ex_items_link" "list_all item_ok ex_items_link"
  "ex_body_link \<noteq> []"
  by (simp_all add: ex_body_link_def ex_items_link_def ex_items_greeting_def ex_fragment_def
        template_source_def pieces_source_def link_open_def link_close_def trim_def
        whiteSpace_def lineTerminator_def js_def)

lemma ex_items_greeting_ok:
  "trim ex_body_greeting = template_source ex_items_greeting"
  "list_all item_ok ex_items_greeting" "ex_body_greeting \<noteq> []"
  by (simp_all add: ex_body_greeting_def ex_items_greeting_def template_source_def
        trim_def whiteSpace_def lineTerminator_def js_def)

lemma ex_values_plain:
  "0x0024 \<notin> set (field_values (Some (js ''Ada'')) (js ''Ada Lovelace'') (Some (js ''Acme''))
      (Some (js ''ada@example.org'')) (Some (js ''Engineer''))
      (Some (js ''https://example.org/j/1'')) v)"
  "0x0024 \<notin> set (field_values (Some (js ''Ada'')) (js ''Ada Lovelace'') (Some (js ''Acme''))
      (Some (js ''ada@example.org'')) (Some (js ''Engineer'')) None v)"
  by (cases v; simp add: field_values_def js_def)+

theorem custom_render_two_passes_witness:
  "ex_row_link (js ''Name'') = Some (js ''Ada Lovelace'')
   \<and> userType (ex_job_custom ex_body_link) = Some (js ''other'')
   \<and> customEmailBody (ex_job_custom ex_body_link) = Some ex_body_link
   \<and> ex_body_link \<noteq> []
   \<and> trim ex_body_link = template_source ex_items_link \<and> list_all item_ok ex_items_link
   \<and> (\<forall>v. 0x0024 \<notin> set (field_values (firstName_of (js ''Ada Lovelace'')) (js ''Ada Lovelace'')
                (ex_row_link (js ''Company'')) (ex_row_link (js ''Email''))
                (ex_row_link (js ''Role'')) (ex_row_link (js ''Link'')) v))
   \<and> map_sum id html (buildMailOptions ex_row_link (ex_job_custom ex_body_link))
       = Inr (custom_1 @ emailStyles @ custom_2
              @ js ''<p>Hi Ada</p><a href=\"https://example.org/j/1\">Job at Acme</a>''
              @ custom_3)"
proof -
  have v: "\<forall>v. 0x0024 \<notin> set (field_values (firstName_of (js ''Ada Lovelace''))
                (js ''Ada Lovelace'') (ex_row_link (js ''Company'')) (ex_row_link (js ''Email''))
                (ex_row_link (js ''Role'')) (ex_row_link (js ''Link'')) v)"
    by (simp add: ex_row_link_fields ex_first_names ex_values_plain)
  have t: "template_value True
             (field_values (Some (js ''Ada'')) (js ''Ada Lovelace'') (Some (js ''Acme''))
                (Some (js ''ada@example.org'')) (Some (js ''Engineer''))
                (Some (js ''https://example.org/j/1''))) ex_items_link
           = js ''<p>Hi Ada</p><a href=\"https://example.org/j/1\">Job at Acme</a>''"
    by (simp add: template_value_def ex_items_link_def ex_items_greeting_def ex_fragment_def
          field_values_def js_def)
  have l: "truthy (Some (js ''https://example.org/j/1''))" by (simp add: js_def)
  from custom_render_two_passes[of ex_row_link "js ''Ada Lovelace''" "ex_job_custom ex_body_link"
      ex_body_link ex_items_link, OF ex_row_link_fields(1) ex_job_custom_fields ex_items_link_ok(3)]
    v ex_items_link_ok
  have "map_sum id html (buildMailOptions ex_row_link (ex_job_custom ex_body_link))
        = Inr (custom_1 @ emailStyles @ custom_2
               @ template_value (truthy (ex_row_link (js ''Link'')))
                   (field_values (firstName_of (js ''Ada Lovelace'')) (js ''Ada Lovelace'')
                      (ex_row_link (js ''Company'')) (ex_row_link (js ''Email''))
                      (ex_row_link (js ''Role'')) (ex_row_link (js ''Link''))) ex_items_link
               @ custom_3)"
    by blast
  then have "map_sum id html (buildMailOptions ex_row_link (ex_job_custom ex_body_link))
       = Inr (custom_1 @ emailStyles @ custom_2
              @ js ''<p>Hi Ada</p><a href=\"https://example.org/j/1\">Job at Acme</a>''
              @ custom_3)"
    using t l by (simp add: ex_row_link_fields ex_first_names)
  then show ?thesis
    using v ex_items_link_ok ex_row_link_fields(1) ex_job_custom_fields[of ex_body_link]
    by blast
qed

text \<open>
  A name whose first token is the text of the company placeholder: one pass of the
  resolver leaves that text in the greeting, the chain of replacements replaces it by the
  company in its third step.
\<close>

theorem custom_render_counterexample:
  "ex_row_dollar (js ''Name'') = Some (js ''${Company} Smith'')
   \<and> ex_row_dollar (js ''Company'') = Some (js ''Acme'')
   \<and> customEmailBody (ex_job_custom ex_body_greeting) = Some (js ''<p>Hi ${firstName}</p>'')
   \<and> trim ex_body_greeting = template_source ex_items_greeting
   \<and> list_all item_ok ex_items_greeting
   \<and> template_value False
        (field_values (Some (js ''${Company}'')) (js ''${Company} Smith'') (Some (js ''Acme''))
           (Some (js ''ada@example.org'')) (Some (js ''Engineer'')) None) ex_items_greeting
       = js ''<p>Hi ${Company}</p>''
   \<and> map_sum id html (buildMailOptions ex_row_dollar (ex_job_custom ex_body_greeting))
       = Inr (custom_1 @ emailStyles @ custom_2 @ js ''<p>Hi Acme</p>'' @ custom_3)"
proof -
  have h: "customTemplate ex_body_greeting (Some (js ''${Company}''))
     (js ''${Company} Smith'') (Some (js ''Acme'')) (Some (js ''ada@example.org''))
     (Some (js ''Engineer'')) None
   = custom_1 @ emailStyles @ custom_2 @ js ''<p>Hi Acme</p>'' @ custom_3"
    by (simp add: ex_body_greeting_def render_eval)
  have t: "template_value False
        (field_values (Some (js ''${Company}'')) (js ''${Company} Smith'') (Some (js ''Acme''))
           (Some (js ''ada@example.org'')) (Some (js ''Engineer'')) None) ex_items_greeting
       = js ''<p>Hi ${Company}</p>''"
    by (simp add: template_value_def ex_items_greeting_def field_values_def js_def)
  have b: "customEmailBody (ex_job_custom ex_body_greeting) = Some (js ''<p>Hi ${firstName}</p>'')"
    by (simp add: ex_job_custom_fields ex_body_greeting_def)
  from buildMailOptions_custom[of ex_row_dollar "js ''${Company} Smith''"
      "ex_job_custom ex_body_greeting" ex_body_greeting,
      OF ex_row_dollar_fields(1) ex_job_custom_fields ex_items_greeting_ok(3)]
    h t b ex_row_dollar_fields ex_items_greeting_ok
  show ?thesis by (simp add: ex_first_names)
qed

section \<open>The conditional-link placeholder\<close>

lemma ex_two_lines_html:
  "map_sum id html (buildMailOptions ex_row (ex_job_custom ex_body_two_lines))
   = Inr (custom_1 @ emailStyles @ custom_2 @ js ''<p>Hi Ada</p>'' @ link_open
          @ js ''<a href=\"\">\<newline>Job</a>'' @ link_close @ custom_3)"
proof -
  have b: "ex_body_two_lines \<noteq> []" by (simp add: ex_body_two_lines_def js_def)
  have "customTemplate ex_body_two_lines (Some (js ''Ada'')) (js ''Ada Lovelace'')
          (Some (js ''Acme'')) (Some (js ''ada@example.org'')) (Some (js ''Engineer'')) None
        = custom_1 @ emailStyles @ custom_2 @ js ''<p>Hi Ada</p>'' @ link_open
          @ js ''<a href=\"\">\<newline>Job</a>'' @ link_close @ custom_3"
    by (simp add: ex_body_two_lines_def render_eval)
  then show ?thesis
    using buildMailOptions_custom[of ex_row "js ''Ada Lovelace''"
        "ex_job_custom ex_body_two_lines" ex_body_two_lines,
        OF ex_row_fields(1) ex_job_custom_fields b]
    by (simp add: ex_row_fields ex_first_names)
qed

lemma ex_no_link_html:
  "map_sum id html (buildMailOptions ex_row (ex_job_custom ex_body_link))
   = Inr (custom_1 @ emailStyles @ custom_2 @ js ''<p>Hi Ada</p>'' @ custom_3)"
proof -
  have "customTemplate ex_body_link (Some (js ''Ada'')) (js ''Ada Lovelace'') (Some (js ''Acme''))
          (Some (js ''ada@example.org'')) (Some (js ''Engineer'')) None
        = custom_1 @ emailStyles @ custom_2
          @ template_value (truthy None)
              (field_values (Some (js ''Ada'')) (js ''Ada Lovelace'') (Some (js ''Acme''))
                (Some (js ''ada@example.org'')) (Some (js ''Engineer'')) None) ex_items_link
          @ custom_3"
    by (rule customTemplate_structured[OF refl ex_values_plain(2) ex_items_link_ok(1,2)])
  also have "template_value (truthy None)
              (field_values (Some (js ''Ada'')) (js ''Ada Lovelace'') (Some (js ''Acme''))
                (Some (js ''ada@example.org'')) (Some (js ''Engineer'')) None) ex_items_link
        = js ''<p>Hi Ada</p>''"
    by (simp add: template_value_def ex_items_link_def ex_items_greeting_def ex_fragment_def
          field_values_def js_def)
  finally show ?thesis
    using buildMailOptions_custom[of ex_row "js ''Ada Lovelace''"
        "ex_job_custom ex_body_link" ex_body_link,
        OF ex_row_fields(1) ex_job_custom_fields ex_items_link_ok(3)]
    by (simp add: ex_row_fields ex_first_names)
qed

text \<open>
  Claim C5. A record without link is rendered with a custom body whose conditional-link
  placeholder has a fragment of two lines. The output still holds the whole placeholder,
  with its conditional syntax and its fragment; only the plain link placeholder inside it
  has been replaced, by the empty string. So the fragment is not removed and placeholder
  syntax is left over: the expression \<^verbatim>\<open>(.*?)\<close> of \<^verbatim>\<open>linkRegex\<close> matches no line
  terminator, and the placeholder is not recognised. For comparison, the same record with
  the fragment on one line: the placeholder is removed.
\<close>

theorem conditional_link_two_lines:
  "ex_row (js ''Link'') = None
   \<and> link_open = js ''${Link ? `''
   \<and> link_close = js ''` : '' @ [0x0027, 0x0027] @ js ''}''
   \<and> ex_body_two_lines = js ''<p>Hi ${firstName}</p>'' @ link_open
        @ js ''<a href=\"${Link}\">\<newline>Job</a>'' @ link_close
   \<and> map_sum id html (buildMailOptions ex_row (ex_job_custom ex_body_two_lines))
       = Inr (custom_1 @ emailStyles @ custom_2 @ js ''<p>Hi Ada</p>'' @ link_open
              @ js ''<a href=\"\">\<newline>Job</a>'' @ link_close @ custom_3)
   \<and> ex_body_link = js ''  <p>Hi ${firstName}</p>'' @ link_open
        @ js ''<a href=\"${Link}\">Job at ${Company}</a>'' @ link_close @ js ''  ''
   \<and> map_sum id html (buildMailOptions ex_row (ex_job_custom ex_body_link))
       = Inr (custom_1 @ emailStyles @ custom_2 @ js ''<p>Hi Ada</p>'' @ custom_3)"
proof -
  have b: "ex_body_two_lines = js ''<p>Hi ${firstName}</p>'' @ link_open
        @ js ''<a href=\"${Link}\">\<newline>Job</a>'' @ link_close"
    "ex_body_link = js ''  <p>Hi ${firstName}</p>'' @ link_open
        @ js ''<a href=\"${Link}\">Job at ${Company}</a>'' @ link_close @ js ''  ''"
    "link_open = js ''${Link ? `''"
    "link_close = js ''` : '' @ [0x0027, 0x0027] @ js ''}''"
    by (simp_all add: ex_body_two_lines_def ex_body_link_def link_open_def link_close_def js_def)
  show ?thesis
    using b ex_no_link_html ex_two_lines_html ex_row_fields(5)
    by blast
qed

section \<open>Rendering is a function of the record, on an example\<close>

theorem render_function_of_record_witness:
  "ex_row (js ''Name'') = ex_row_extra (js ''Name'')
   \<and> ex_row (js ''Email'') = ex_row_extra (js ''Email'')
   \<and> ex_row (js ''Company'') = ex_row_extra (js ''Company'')
   \<and> ex_row (js ''Role'') = ex_row_extra (js ''Role'')
   \<and> ex_row (js ''Link'') = ex_row_extra (js ''Link'')
   \<and> userType ex_job_navneet = userType (ex_job_navneet\<lparr>current := 1, success := 1\<rparr>)
   \<and> customEmailBody ex_job_navneet
       = customEmailBody (ex_job_navneet\<lparr>current := 1, success := 1\<rparr>)
   \<and> map_sum id (\<lambda>m. (subject m, html m)) (buildMailOptions ex_row ex_job_navneet)
       = map_sum id (\<lambda>m. (subject m, html m))
           (buildMailOptions ex_row_extra (ex_job_navneet\<lparr>current := 1, success := 1\<rparr>))
   \<and> map_sum id subject (buildMailOptions ex_row ex_job_navneet)
       = Inr (js ''Request for an Interview Opportunity - Engineer at Acme'')"
proof -
  have h: "ex_row (js ''Name'') = ex_row_extra (js ''Name'')"
    "ex_row (js ''Email'') = ex_row_extra (js ''Email'')"
    "ex_row (js ''Company'') = ex_row_extra (js ''Company'')"
    "ex_row (js ''Role'') = ex_row_extra (js ''Role'')"
    "ex_row (js ''Link'') = ex_row_extra (js ''Link'')"
    "userType ex_job_navneet = userType (ex_job_navneet\<lparr>current := 1, success := 1\<rparr>)"
    "customEmailBody ex_job_navneet
       = customEmailBody (ex_job_navneet\<lparr>current := 1, success := 1\<rparr>)"
    by (simp_all add: ex_row_extra_def js_def)
  have s: "map_sum id subject (buildMailOptions ex_row ex_job_navneet)
       = Inr (js ''Request for an Interview Opportunity - Engineer at Acme'')"
    by (simp add: buildMailOptions_def Let_def ex_row_fields ex_job_navneet_def ex_job_def)
       (simp add: js_def)
  from render_function_of_record[of ex_row ex_row_extra ex_job_navneet
      "ex_job_navneet\<lparr>current := 1, success := 1\<rparr>" "\<lambda>sent mail. None" "[]", OF h] h s
  show ?thesis by blast
qed

end
